theory Spec2Isabelle
  imports Complex_Main "HOL-Library.Sublist" "HOL-Library.AList" "HOL-Library.Multiset"
begin

section \<open>Data model\<close>

text \<open>
  Identifiers (UUIDs) are modelled by their text form, timestamps by an integer number of
  time units since a fixed epoch.  Python values that are handled dynamically
  (\<^verbatim>\<open>str(value)\<close>, \<^verbatim>\<open>setattr\<close>, JWT claims) are values of the type \<open>val\<close>;
  floats are modelled by rationals, of which only equality and order are used.
\<close>

type_synonym uuid = string
type_synonym datetime = int

datatype val = S string | I int | B bool | F rat

text \<open>Python truthiness: the empty string, 0, 0.0 and False are falsy.\<close>

fun truthy :: "val \<Rightarrow> bool" where
  "truthy (S s) = (s \<noteq> [])"
| "truthy (I i) = (i \<noteq> 0)"
| "truthy (B b) = b"
| "truthy (F r) = (r \<noteq> 0)"

text \<open>Exceptions that leave a request handler: an \<^verbatim>\<open>HTTPException\<close> with its status
  code and detail, the ORM's \<^verbatim>\<open>MultipleResultsFound\<close>, the store's
  \<^verbatim>\<open>IntegrityError\<close>, and the request validation error (HTTP 422).\<close>

datatype error =
    HTTPException nat string
  | MultipleResultsFound
  | IntegrityError
  | RequestValidationError

record user =
  u_id :: uuid
  u_username :: string
  u_email :: string
  u_hashed_password :: string
  u_is_active :: bool
  u_is_admin :: bool
  u_created_at :: datetime
  u_updated_at :: datetime

record api_key =
  k_id :: uuid
  k_user_id :: uuid
  k_name :: string
  k_key_hash :: string
  k_key_prefix :: string
  k_is_active :: bool
  k_last_used_at :: "datetime option"
  k_created_at :: datetime
  k_expires_at :: "datetime option"

text \<open>The columns of a comic that \<^verbatim>\<open>ComicBase\<close> and \<^verbatim>\<open>ComicUpdate\<close> declare.  The
  handlers reach them by name (\<^verbatim>\<open>setattr(comic, key, value)\<close>,
  \<^verbatim>\<open>getattr(Comic, sort_by)\<close>), so a row keeps them in a map from column name to
  value, with \<open>None\<close> for SQL NULL.\<close>

datatype field =
    Title | Series | Alternate_series | Number | Count | Volume
  | Alternate_number | Alternate_count | Summary | Notes | Year | Month | Day
  | Publisher | Imprint | Writer | Penciller | Inker | Colorist | Letterer
  | Cover_artist | Editor | Translator | Genre | Tags | Web | Age_rating
  | Language_iso | Format | Is_bw | Manga | Community_rating | Review
  | Page_count | Cover_url | Isbn | Barcode | Series_group

record comic =
  c_id :: uuid
  c_attrs :: "field \<Rightarrow> val option"
  c_cover_image_path :: "string option"
  c_created_at :: datetime
  c_updated_at :: datetime
  c_created_by :: "uuid option"

text \<open>The persistence store: the three tables, each in storage order.\<close>

record db =
  users :: "user list"
  api_keys :: "api_key list"
  comics :: "comic list"

text \<open>\<^verbatim>\<open>Result.scalar_one_or_none()\<close>: no row gives None, one row gives the row, more
  rows raise.\<close>

fun scalar_one_or_none :: "'a list \<Rightarrow> error + 'a option" where
  "scalar_one_or_none [] = Inr None"
| "scalar_one_or_none [x] = Inr (Some x)"
| "scalar_one_or_none (x # y # zs) = Inl MultipleResultsFound"

section \<open>Credential resolver (app/core/deps.py)\<close>

text \<open>\<^verbatim>\<open>decode_access_token\<close> (the JWT library behind it) and \<^verbatim>\<open>hash_api_key\<close>
  (SHA-256) are parameters \<open>dec\<close> and \<open>H\<close>.  A decoded payload is a dictionary, kept as
  an association list; a claim that is not a string matches no user id.\<close>

type_synonym payload = "(string \<times> val) list"

definition get_current_user_from_token ::
  "(string \<Rightarrow> payload option) \<Rightarrow> string option \<Rightarrow> db \<Rightarrow> error + user option" where
  "get_current_user_from_token dec credentials d =
     (case credentials of
        None \<Rightarrow> Inr None
      | Some tok \<Rightarrow>
          (case dec tok of
             None \<Rightarrow> Inr None
           | Some pl \<Rightarrow>
               if pl = [] then Inr None
               else (case map_of pl ''sub'' of
                       None \<Rightarrow> Inr None
                     | Some uid \<Rightarrow>
                         if \<not> truthy uid then Inr None
                         else scalar_one_or_none
                                (filter (\<lambda>u. S (u_id u) = uid \<and> u_is_active u) (users d)))))"

text \<open>The key resolver commits \<^verbatim>\<open>last_used_at\<close> before it loads the user, so the store
  it leaves behind is returned on every path, also with an error.\<close>

definition touch_last_used :: "datetime \<Rightarrow> api_key \<Rightarrow> db \<Rightarrow> db" where
  "touch_last_used now obj d =
     d\<lparr>api_keys := map (\<lambda>k. if k_id k = k_id obj then k\<lparr>k_last_used_at := Some now\<rparr> else k)
                        (api_keys d)\<rparr>"

definition get_current_user_from_api_key ::
  "(string \<Rightarrow> string) \<Rightarrow> datetime \<Rightarrow> string option \<Rightarrow> db \<Rightarrow> (error + user option) \<times> db" where
  "get_current_user_from_api_key H now api_key d =
     (case api_key of
        None \<Rightarrow> (Inr None, d)
      | Some key \<Rightarrow>
          if key = [] then (Inr None, d)
          else (case scalar_one_or_none
                       (filter (\<lambda>k. k_key_hash k = H key \<and> k_is_active k) (api_keys d)) of
                  Inl e \<Rightarrow> (Inl e, d)
                | Inr None \<Rightarrow> (Inr None, d)
                | Inr (Some obj) \<Rightarrow>
                    if (case k_expires_at obj of None \<Rightarrow> False | Some e \<Rightarrow> e < now)
                    then (Inr None, d)
                    else (let d' = touch_last_used now obj d
                          in (scalar_one_or_none
                                (filter (\<lambda>u. u_id u = k_user_id obj \<and> u_is_active u) (users d')),
                              d'))))"

text \<open>\<^verbatim>\<open>get_current_user\<close> receives the two resolved values.  An ORM object is
  truthy, so \<^verbatim>\<open>token_user or api_key_user\<close> is the token user unless it is None.\<close>

definition get_current_user :: "user option \<Rightarrow> user option \<Rightarrow> error + user" where
  "get_current_user token_user api_key_user =
     (case (case token_user of Some u \<Rightarrow> Some u | None \<Rightarrow> api_key_user) of
        None \<Rightarrow> Inl (HTTPException 401 ''Not authenticated'')
      | Some u \<Rightarrow> Inr u)"

text \<open>The dependency wiring of the framework: the token dependency is solved first,
  then the key dependency, then \<^verbatim>\<open>get_current_user\<close> on their results; an exception in
  a dependency ends the request.\<close>

definition resolve_principal ::
  "(string \<Rightarrow> payload option) \<Rightarrow> (string \<Rightarrow> string) \<Rightarrow> datetime \<Rightarrow>
   string option \<Rightarrow> string option \<Rightarrow> db \<Rightarrow> (error + user) \<times> db" where
  "resolve_principal dec H now credentials api_key d =
     (case get_current_user_from_token dec credentials d of
        Inl e \<Rightarrow> (Inl e, d)
      | Inr token_user \<Rightarrow>
          (case get_current_user_from_api_key H now api_key d of
             (Inl e, d') \<Rightarrow> (Inl e, d')
           | (Inr api_key_user, d') \<Rightarrow> (get_current_user token_user api_key_user, d')))"

definition get_current_admin :: "user \<Rightarrow> error + user" where
  "get_current_admin current_user =
     (if \<not> u_is_admin current_user then Inl (HTTPException 403 ''Admin access required'')
      else Inr current_user)"

section \<open>The store's constraints\<close>

text \<open>A commit that inserts a row is refused with \<^verbatim>\<open>IntegrityError\<close> when the row
  breaks a constraint declared in app/models/models.py: the primary keys, the unique
  columns (username, email, key hash) and the foreign keys to \<^verbatim>\<open>users.id\<close>.\<close>

definition add_user :: "user \<Rightarrow> db \<Rightarrow> error + db" where
  "add_user u d =
     (if u_id u \<in> set (map u_id (users d))
         \<or> u_username u \<in> set (map u_username (users d))
         \<or> u_email u \<in> set (map u_email (users d))
      then Inl IntegrityError
      else Inr (d\<lparr>users := users d @ [u]\<rparr>))"

definition add_api_key :: "api_key \<Rightarrow> db \<Rightarrow> error + db" where
  "add_api_key k d =
     (if k_id k \<in> set (map k_id (api_keys d))
         \<or> k_key_hash k \<in> set (map k_key_hash (api_keys d))
         \<or> k_user_id k \<notin> set (map u_id (users d))
      then Inl IntegrityError
      else Inr (d\<lparr>api_keys := api_keys d @ [k]\<rparr>))"

definition add_comic :: "comic \<Rightarrow> db \<Rightarrow> error + db" where
  "add_comic c d =
     (if c_id c \<in> set (map c_id (comics d))
         \<or> c_attrs c Title = None
         \<or> (case c_created_by c of None \<Rightarrow> False | Some uid \<Rightarrow> uid \<notin> set (map u_id (users d)))
      then Inl IntegrityError
      else Inr (d\<lparr>comics := comics d @ [c]\<rparr>))"

section \<open>API keys (app/api/api_keys.py, app/core/security.py)\<close>

definition API_KEY_PREFIX :: string where
  "API_KEY_PREFIX = ''mng_''"

text \<open>\<^verbatim>\<open>generate_api_key\<close>: the configured prefix followed by the 48 random
  alphanumeric characters, which are the argument.\<close>

definition generate_api_key :: "string \<Rightarrow> string" where
  "generate_api_key random_part = API_KEY_PREFIX @ random_part"

record api_key_create =
  ak_name :: string
  ak_expires_at :: "datetime option"

definition active_keys :: "uuid \<Rightarrow> db \<Rightarrow> api_key list" where
  "active_keys uid d = filter (\<lambda>k. k_user_id k = uid \<and> k_is_active k) (api_keys d)"

text \<open>\<^verbatim>\<open>create_api_key\<close>.  The random part of the key, the fresh row id and the clock
  are arguments; the result is the stored row together with the full key, which is all
  that \<^verbatim>\<open>ApiKeyCreated\<close> carries.\<close>

definition create_api_key ::
  "(string \<Rightarrow> string) \<Rightarrow> string \<Rightarrow> uuid \<Rightarrow> datetime \<Rightarrow> api_key_create \<Rightarrow> user \<Rightarrow> db
     \<Rightarrow> (error + api_key \<times> string) \<times> db" where
  "create_api_key H random_part new_id now payload current_user d =
     (if length (active_keys (u_id current_user) d) \<ge> 10
      then (Inl (HTTPException 400 ''Maximum 10 active API keys per user''), d)
      else
        (let full_key = generate_api_key random_part;
             key_hash = H full_key;
             row = \<lparr>k_id = new_id, k_user_id = u_id current_user, k_name = ak_name payload,
                    k_key_hash = key_hash, k_key_prefix = take 10 full_key,
                    k_is_active = True, k_last_used_at = None, k_created_at = now,
                    k_expires_at = ak_expires_at payload\<rparr>
         in (case add_api_key row d of
               Inl e \<Rightarrow> (Inl e, d)
             | Inr d' \<Rightarrow> (Inr (row, full_key), d'))))"

definition revoke_api_key :: "uuid \<Rightarrow> user \<Rightarrow> db \<Rightarrow> (error + unit) \<times> db" where
  "revoke_api_key key_id current_user d =
     (case scalar_one_or_none
             (filter (\<lambda>k. k_id k = key_id \<and> k_user_id k = u_id current_user) (api_keys d)) of
        Inl e \<Rightarrow> (Inl e, d)
      | Inr None \<Rightarrow> (Inl (HTTPException 404 ''API key not found''), d)
      | Inr (Some obj) \<Rightarrow>
          (Inr (),
           d\<lparr>api_keys := map (\<lambda>k. if k_id k = k_id obj then k\<lparr>k_is_active := False\<rparr> else k)
                              (api_keys d)\<rparr>))"

section \<open>Registration (app/api/auth.py)\<close>

record user_register =
  r_username :: string
  r_email :: string
  r_password :: string

text \<open>\<^verbatim>\<open>register\<close>, on a payload that passed the schema's validation.  The password
  hasher \<open>hp\<close>, the fresh user id and the clock are arguments.\<close>

definition register ::
  "(string \<Rightarrow> string) \<Rightarrow> datetime \<Rightarrow> uuid \<Rightarrow> user_register \<Rightarrow> db \<Rightarrow> (error + user) \<times> db" where
  "register hp now new_id payload d =
     (case scalar_one_or_none
             (filter (\<lambda>u. u_username u = r_username payload \<or> u_email u = r_email payload)
                     (users d)) of
        Inl e \<Rightarrow> (Inl e, d)
      | Inr (Some existing) \<Rightarrow>
          if u_username existing = r_username payload
          then (Inl (HTTPException 400 ''Username already taken''), d)
          else (Inl (HTTPException 400 ''Email already registered''), d)
      | Inr None \<Rightarrow>
          (let u = \<lparr>u_id = new_id, u_username = r_username payload, u_email = r_email payload,
                    u_hashed_password = hp (r_password payload), u_is_active = True,
                    u_is_admin = False, u_created_at = now, u_updated_at = now\<rparr>
           in (case add_user u d of
                 Inl e \<Rightarrow> (Inl e, d)
               | Inr d' \<Rightarrow> (Inr u, d'))))"

section \<open>Search query compiler (app/api/comics.py)\<close>

record search_params =
  sp_q :: "string option"
  sp_series :: "string option"
  sp_publisher :: "string option"
  sp_writer :: "string option"
  sp_genre :: "string option"
  sp_year_from :: "int option"
  sp_year_to :: "int option"
  sp_language :: "string option"
  sp_manga :: "string option"
  sp_age_rating :: "string option"
  sp_page :: int
  sp_page_size :: int
  sp_sort_by :: string
  sp_sort_order :: string

text \<open>The SQL expressions that \<^verbatim>\<open>build_search_query\<close> puts together.\<close>

datatype cond =
    ILike field string
  | Ge field int
  | Le field int
  | Eq field string
  | Or "cond list"

text \<open>\<^verbatim>\<open>if params.x: filters.append(...)\<close> on an optional string and on an optional
  integer: the filter is appended when the value is truthy, so not for None, the empty
  string or 0.\<close>

definition when_str :: "string option \<Rightarrow> (string \<Rightarrow> cond) \<Rightarrow> cond list" where
  "when_str x mk = (case x of None \<Rightarrow> [] | Some s \<Rightarrow> if s = [] then [] else [mk s])"

definition when_int :: "int option \<Rightarrow> (int \<Rightarrow> cond) \<Rightarrow> cond list" where
  "when_int x mk = (case x of None \<Rightarrow> [] | Some i \<Rightarrow> if i = 0 then [] else [mk i])"

text \<open>The pattern \<^verbatim>\<open>f"%{s}%"\<close>.\<close>

definition pct :: "string \<Rightarrow> string" where
  "pct s = ''%'' @ s @ ''%''"

definition build_search_query :: "search_params \<Rightarrow> cond list" where
  "build_search_query params =
     when_str (sp_q params)
       (\<lambda>q. Or [ILike Title (pct q), ILike Series (pct q), ILike Summary (pct q),
                ILike Writer (pct q), ILike Publisher (pct q)])
     @ when_str (sp_series params) (\<lambda>s. ILike Series (pct s))
     @ when_str (sp_publisher params) (\<lambda>s. ILike Publisher (pct s))
     @ when_str (sp_writer params) (\<lambda>s. ILike Writer (pct s))
     @ when_str (sp_genre params) (\<lambda>s. ILike Genre (pct s))
     @ when_int (sp_year_from params) (\<lambda>y. Ge Year y)
     @ when_int (sp_year_to params) (\<lambda>y. Le Year y)
     @ when_str (sp_language params) (\<lambda>s. Eq Language_iso s)
     @ when_str (sp_manga params) (\<lambda>s. Eq Manga s)
     @ when_str (sp_age_rating params) (\<lambda>s. Eq Age_rating s)"

subsection \<open>What the store makes of the expressions\<close>

text \<open>SQL \<^verbatim>\<open>LIKE\<close> as PostgreSQL matches it: \<^verbatim>\<open>%\<close> stands for any run of characters,
  \<^verbatim>\<open>_\<close> for any one character, a backslash takes the next pattern character
  literally, every other character stands for itself.  A pattern that ends in a lone
  backslash matches nothing here (the patterns built above end in \<^verbatim>\<open>%\<close>).\<close>

fun like_match :: "string \<Rightarrow> string \<Rightarrow> bool" where
  "like_match [] s = (s = [])"
| "like_match (p # ps) s =
     (if p = CHR ''%'' then
        like_match ps s \<or> (case s of [] \<Rightarrow> False | c # t \<Rightarrow> like_match (p # ps) t)
      else if p = CHR ''_'' then
        (case s of [] \<Rightarrow> False | c # t \<Rightarrow> like_match ps t)
      else if p = CHR 0x5C then
        (case ps of
           [] \<Rightarrow> False
         | e # ps' \<Rightarrow> (case s of [] \<Rightarrow> False | c # t \<Rightarrow> c = e \<and> like_match ps' t))
      else (case s of [] \<Rightarrow> False | c # t \<Rightarrow> c = p \<and> like_match ps t))"

text \<open>\<^verbatim>\<open>ILIKE\<close> folds the case of both sides; the model folds the ASCII letters.\<close>

definition lower_char :: "char \<Rightarrow> char" where
  "lower_char c =
     (case map_of (zip ''ABCDEFGHIJKLMNOPQRSTUVWXYZ'' ''abcdefghijklmnopqrstuvwxyz'') c of
        None \<Rightarrow> c
      | Some l \<Rightarrow> l)"

definition lower :: "string \<Rightarrow> string" where
  "lower s = map lower_char s"

definition ilike :: "string \<Rightarrow> string \<Rightarrow> bool" where
  "ilike pat s = like_match (lower pat) (lower s)"

text \<open>SQL's three truth values: \<open>None\<close> is NULL.  A comparison with a NULL column is
  NULL, and so is one with a value of another type than the expression's.\<close>

fun sql_or :: "bool option list \<Rightarrow> bool option" where
  "sql_or [] = Some False"
| "sql_or (x # xs) =
     (case (x, sql_or xs) of
        (Some True, _) \<Rightarrow> Some True
      | (_, Some True) \<Rightarrow> Some True
      | (Some False, Some False) \<Rightarrow> Some False
      | _ \<Rightarrow> None)"

fun sql_and :: "bool option list \<Rightarrow> bool option" where
  "sql_and [] = Some True"
| "sql_and (x # xs) =
     (case (x, sql_and xs) of
        (Some False, _) \<Rightarrow> Some False
      | (_, Some False) \<Rightarrow> Some False
      | (Some True, Some True) \<Rightarrow> Some True
      | _ \<Rightarrow> None)"

fun eval_cond :: "cond \<Rightarrow> comic \<Rightarrow> bool option" where
  "eval_cond (ILike f pat) c =
     (case c_attrs c f of Some (S s) \<Rightarrow> Some (ilike pat s) | _ \<Rightarrow> None)"
| "eval_cond (Ge f n) c =
     (case c_attrs c f of Some (I i) \<Rightarrow> Some (i \<ge> n) | _ \<Rightarrow> None)"
| "eval_cond (Le f n) c =
     (case c_attrs c f of Some (I i) \<Rightarrow> Some (i \<le> n) | _ \<Rightarrow> None)"
| "eval_cond (Eq f v) c =
     (case c_attrs c f of Some (S s) \<Rightarrow> Some (s = v) | _ \<Rightarrow> None)"
| "eval_cond (Or cs) c = sql_or (map (\<lambda>x. eval_cond x c) cs)"

text \<open>\<^verbatim>\<open>if filters: query.where(and_(*filters))\<close>: a row is kept when the conjunction
  is true; with no filter the query has no WHERE clause.\<close>

definition where_rows :: "cond list \<Rightarrow> comic list \<Rightarrow> comic list" where
  "where_rows filters rows =
     (if filters = [] then rows
      else filter (\<lambda>c. sql_and (map (\<lambda>x. eval_cond x c) filters) = Some True) rows)"

subsection \<open>The filter as the specification words it\<close>

text \<open>Case-insensitive substring match of a search text against a column; a NULL
  column matches nothing.\<close>

definition contains_ci :: "comic \<Rightarrow> field \<Rightarrow> string \<Rightarrow> bool" where
  "contains_ci c f s =
     (case c_attrs c f of Some (S v) \<Rightarrow> sublist (lower s) (lower v) | _ \<Rightarrow> False)"

definition year_at_least :: "comic \<Rightarrow> int \<Rightarrow> bool" where
  "year_at_least c n = (case c_attrs c Year of Some (I y) \<Rightarrow> n \<le> y | _ \<Rightarrow> False)"

definition year_at_most :: "comic \<Rightarrow> int \<Rightarrow> bool" where
  "year_at_most c n = (case c_attrs c Year of Some (I y) \<Rightarrow> y \<le> n | _ \<Rightarrow> False)"

text \<open>The conjunction of the filters that are present (not None): free text against
  any of five columns, substring filters, inclusive year bounds, equality filters.\<close>

definition spec_filter :: "search_params \<Rightarrow> comic \<Rightarrow> bool" where
  "spec_filter p c =
     ((case sp_q p of
         None \<Rightarrow> True
       | Some q \<Rightarrow> contains_ci c Title q \<or> contains_ci c Series q \<or> contains_ci c Summary q
                     \<or> contains_ci c Writer q \<or> contains_ci c Publisher q)
      \<and> (case sp_series p of None \<Rightarrow> True | Some s \<Rightarrow> contains_ci c Series s)
      \<and> (case sp_publisher p of None \<Rightarrow> True | Some s \<Rightarrow> contains_ci c Publisher s)
      \<and> (case sp_writer p of None \<Rightarrow> True | Some s \<Rightarrow> contains_ci c Writer s)
      \<and> (case sp_genre p of None \<Rightarrow> True | Some s \<Rightarrow> contains_ci c Genre s)
      \<and> (case sp_year_from p of None \<Rightarrow> True | Some y \<Rightarrow> year_at_least c y)
      \<and> (case sp_year_to p of None \<Rightarrow> True | Some y \<Rightarrow> year_at_most c y)
      \<and> (case sp_language p of None \<Rightarrow> True | Some s \<Rightarrow> c_attrs c Language_iso = Some (S s))
      \<and> (case sp_manga p of None \<Rightarrow> True | Some s \<Rightarrow> c_attrs c Manga = Some (S s))
      \<and> (case sp_age_rating p of None \<Rightarrow> True | Some s \<Rightarrow> c_attrs c Age_rating = Some (S s)))"

text \<open>The request in which every falsy filter value (the empty string, the year 0) is
  replaced by None.\<close>

fun str_or_none :: "string option \<Rightarrow> string option" where
  "str_or_none None = None"
| "str_or_none (Some s) = (if s = [] then None else Some s)"

fun int_or_none :: "int option \<Rightarrow> int option" where
  "int_or_none None = None"
| "int_or_none (Some i) = (if i = 0 then None else Some i)"

definition falsy_absent :: "search_params \<Rightarrow> search_params" where
  "falsy_absent p =
     p\<lparr>sp_q := str_or_none (sp_q p), sp_series := str_or_none (sp_series p),
       sp_publisher := str_or_none (sp_publisher p), sp_writer := str_or_none (sp_writer p),
       sp_genre := str_or_none (sp_genre p), sp_year_from := int_or_none (sp_year_from p),
       sp_year_to := int_or_none (sp_year_to p), sp_language := str_or_none (sp_language p),
       sp_manga := str_or_none (sp_manga p), sp_age_rating := str_or_none (sp_age_rating p)\<rparr>"

text \<open>A search text is plain when it holds none of the characters that \<^verbatim>\<open>LIKE\<close>
  reads as a wildcard or an escape.\<close>

definition plain :: "string \<Rightarrow> bool" where
  "plain s = list_all (\<lambda>c. c \<noteq> CHR ''%'' \<and> c \<noteq> CHR ''_'' \<and> c \<noteq> CHR 0x5C) s"

fun plain_opt :: "string option \<Rightarrow> bool" where
  "plain_opt None = True"
| "plain_opt (Some s) = plain s"

definition plain_params :: "search_params \<Rightarrow> bool" where
  "plain_params p =
     (plain_opt (sp_q p) \<and> plain_opt (sp_series p) \<and> plain_opt (sp_publisher p)
      \<and> plain_opt (sp_writer p) \<and> plain_opt (sp_genre p))"

section \<open>Listing (app/api/comics.py)\<close>

text \<open>\<^verbatim>\<open>ORDER BY\<close> as PostgreSQL orders: NULL counts as larger than every value, so it
  comes last ascending and first descending; strings compare character by character.
  SQL leaves the order of rows with equal keys open; the model keeps them in storage
  order.  Values of two different types never meet in one column.\<close>

fun str_le :: "string \<Rightarrow> string \<Rightarrow> bool" where
  "str_le [] t = True"
| "str_le (x # xs) [] = False"
| "str_le (x # xs) (y # ys) =
     ((of_char x :: nat) < of_char y \<or> (x = y \<and> str_le xs ys))"

fun val_le :: "val \<Rightarrow> val \<Rightarrow> bool" where
  "val_le (S a) (S b) = str_le a b"
| "val_le (I a) (I b) = (a \<le> b)"
| "val_le (F a) (F b) = (a \<le> b)"
| "val_le (B a) (B b) = (if a then b else True)"
| "val_le a b = True"

fun key_le :: "val option \<Rightarrow> val option \<Rightarrow> bool" where
  "key_le a None = True"
| "key_le None (Some b) = False"
| "key_le (Some a) (Some b) = val_le a b"

fun insert_by :: "('a \<Rightarrow> 'a \<Rightarrow> bool) \<Rightarrow> 'a \<Rightarrow> 'a list \<Rightarrow> 'a list" where
  "insert_by le x [] = [x]"
| "insert_by le x (y # ys) = (if le x y then x # y # ys else y # insert_by le x ys)"

definition order_by :: "bool \<Rightarrow> (comic \<Rightarrow> val option) \<Rightarrow> comic list \<Rightarrow> comic list" where
  "order_by ascending sort_col rows =
     foldr (insert_by (\<lambda>a b. if ascending then key_le (sort_col a) (sort_col b)
                              else key_le (sort_col b) (sort_col a))) rows []"

text \<open>\<^verbatim>\<open>getattr(Comic, params.sort_by)\<close>, for the names the pattern of \<^verbatim>\<open>sort_by\<close>
  lets through.\<close>

definition sort_column :: "string \<Rightarrow> (comic \<Rightarrow> val option) option" where
  "sort_column name =
     (if name = ''title'' then Some (\<lambda>c. c_attrs c Title)
      else if name = ''year'' then Some (\<lambda>c. c_attrs c Year)
      else if name = ''publisher'' then Some (\<lambda>c. c_attrs c Publisher)
      else if name = ''community_rating'' then Some (\<lambda>c. c_attrs c Community_rating)
      else if name = ''created_at'' then Some (\<lambda>c. Some (I (c_created_at c)))
      else None)"

text \<open>\<^verbatim>\<open>ComicListOut\<close>: the id and seven columns of a row.\<close>

record comic_list_out =
  lo_id :: uuid
  lo_title :: "val option"
  lo_series :: "val option"
  lo_number :: "val option"
  lo_year :: "val option"
  lo_publisher :: "val option"
  lo_cover_url :: "val option"
  lo_community_rating :: "val option"

definition ComicListOut :: "comic \<Rightarrow> comic_list_out" where
  "ComicListOut c =
     \<lparr>lo_id = c_id c, lo_title = c_attrs c Title, lo_series = c_attrs c Series,
      lo_number = c_attrs c Number, lo_year = c_attrs c Year,
      lo_publisher = c_attrs c Publisher, lo_cover_url = c_attrs c Cover_url,
      lo_community_rating = c_attrs c Community_rating\<rparr>"

record paginated_comics =
  pc_total :: nat
  pc_page :: int
  pc_page_size :: int
  pc_results :: "comic_list_out list"

text \<open>\<^verbatim>\<open>list_comics\<close>, for an authenticated caller.  The bounds and patterns that the
  signature puts on \<^verbatim>\<open>page\<close>, \<^verbatim>\<open>page_size\<close>, \<^verbatim>\<open>sort_by\<close> and \<^verbatim>\<open>sort_order\<close> reject
  the request before the body runs.\<close>

definition list_comics :: "search_params \<Rightarrow> db \<Rightarrow> error + paginated_comics" where
  "list_comics params d =
     (if sp_page params < 1 \<or> sp_page_size params < 1 \<or> 100 < sp_page_size params
      then Inl RequestValidationError
      else if sp_sort_order params \<noteq> ''asc'' \<and> sp_sort_order params \<noteq> ''desc''
      then Inl RequestValidationError
      else (case sort_column (sp_sort_by params) of
              None \<Rightarrow> Inl RequestValidationError
            | Some sort_col \<Rightarrow>
                (let filters = build_search_query params;
                     total = length (where_rows filters (comics d));
                     offset = (sp_page params - 1) * sp_page_size params;
                     data = take (nat (sp_page_size params))
                              (drop (nat offset)
                                 (order_by (sp_sort_order params = ''asc'') sort_col
                                    (where_rows filters (comics d))))
                 in Inr \<lparr>pc_total = total, pc_page = sp_page params,
                          pc_page_size = sp_page_size params,
                          pc_results = map ComicListOut data\<rparr>)))"

section \<open>Metadata record service (app/api/comics.py)\<close>

text \<open>\<^verbatim>\<open>create_comic\<close>: every column of the payload is stored, the caller is recorded
  as creator.  The fresh row id and the clock are arguments.\<close>

definition create_comic ::
  "datetime \<Rightarrow> uuid \<Rightarrow> (field \<Rightarrow> val option) \<Rightarrow> user \<Rightarrow> db \<Rightarrow> (error + comic) \<times> db" where
  "create_comic now new_id payload current_user d =
     (let comic = \<lparr>c_id = new_id, c_attrs = payload, c_cover_image_path = None,
                    c_created_at = now, c_updated_at = now,
                    c_created_by = Some (u_id current_user)\<rparr>
      in (case add_comic comic d of
            Inl e \<Rightarrow> (Inl e, d)
          | Inr d' \<Rightarrow> (Inr comic, d')))"

definition get_comic :: "uuid \<Rightarrow> db \<Rightarrow> error + comic" where
  "get_comic comic_id d =
     (case scalar_one_or_none (filter (\<lambda>c. c_id c = comic_id) (comics d)) of
        Inl e \<Rightarrow> Inl e
      | Inr None \<Rightarrow> Inl (HTTPException 404 ''Comic not found'')
      | Inr (Some comic) \<Rightarrow> Inr comic)"

text \<open>A member of the JSON body of a PATCH request is left out, given as
  \<^verbatim>\<open>null\<close>, or given a value.  Every field of \<^verbatim>\<open>ComicUpdate\<close> is optional with
  default None, so the parsed payload holds None in the first two cases.\<close>

datatype json_member = Omitted | Null | Given val

definition ComicUpdate :: "(field \<Rightarrow> json_member) \<Rightarrow> (field \<Rightarrow> val option)" where
  "ComicUpdate body = (\<lambda>f. case body f of Omitted \<Rightarrow> None | Null \<Rightarrow> None | Given v \<Rightarrow> Some v)"

text \<open>The fields of \<^verbatim>\<open>ComicUpdate\<close> in the order of their declaration, which is the
  order of the dictionary that \<^verbatim>\<open>model_dump\<close> returns.\<close>

definition comic_update_fields :: "field list" where
  "comic_update_fields =
     [Title, Series, Alternate_series, Number, Count, Volume, Alternate_number,
      Alternate_count, Summary, Notes, Year, Month, Day, Publisher, Imprint, Writer,
      Penciller, Inker, Colorist, Letterer, Cover_artist, Editor, Translator, Genre, Tags,
      Web, Age_rating, Language_iso, Format, Is_bw, Manga, Community_rating, Review,
      Page_count, Cover_url, Isbn, Barcode, Series_group]"

definition model_dump_exclude_none :: "(field \<Rightarrow> val option) \<Rightarrow> (field \<times> val) list" where
  "model_dump_exclude_none payload =
     List.map_filter (\<lambda>f. map_option (Pair f) (payload f)) comic_update_fields"

definition setattr :: "comic \<Rightarrow> field \<Rightarrow> val \<Rightarrow> comic" where
  "setattr comic key v = comic\<lparr>c_attrs := (c_attrs comic)(key := Some v)\<rparr>"

text \<open>The loop \<^verbatim>\<open>for key, value in update_data.items(): setattr(comic, key, value)\<close>.\<close>

definition apply_patch :: "(field \<times> val) list \<Rightarrow> comic \<Rightarrow> comic" where
  "apply_patch update_data comic = fold (\<lambda>(key, v) c. setattr c key v) update_data comic"

text \<open>The commit of an update.  The ORM writes the row, and with it
  \<^verbatim>\<open>updated_at\<close> (\<^verbatim>\<open>onupdate=utcnow\<close>), when a column differs from the loaded
  value.\<close>

definition flush_update :: "datetime \<Rightarrow> comic \<Rightarrow> comic \<Rightarrow> comic" where
  "flush_update now loaded comic =
     (if list_ex (\<lambda>f. c_attrs comic f \<noteq> c_attrs loaded f) comic_update_fields
      then comic\<lparr>c_updated_at := now\<rparr> else comic)"

definition update_comic ::
  "datetime \<Rightarrow> uuid \<Rightarrow> (field \<Rightarrow> val option) \<Rightarrow> user \<Rightarrow> db \<Rightarrow> (error + comic) \<times> db" where
  "update_comic now comic_id payload current_user d =
     (case scalar_one_or_none (filter (\<lambda>c. c_id c = comic_id) (comics d)) of
        Inl e \<Rightarrow> (Inl e, d)
      | Inr None \<Rightarrow> (Inl (HTTPException 404 ''Comic not found''), d)
      | Inr (Some comic) \<Rightarrow>
          if c_created_by comic \<noteq> Some (u_id current_user) \<and> \<not> u_is_admin current_user
          then (Inl (HTTPException 403 ''Not allowed to edit this comic''), d)
          else
            (let update_data = model_dump_exclude_none payload;
                 comic' = flush_update now comic (apply_patch update_data comic)
             in (Inr comic',
                 d\<lparr>comics := map (\<lambda>c. if c_id c = comic_id then comic' else c) (comics d)\<rparr>)))"

definition delete_comic :: "uuid \<Rightarrow> user \<Rightarrow> db \<Rightarrow> (error + unit) \<times> db" where
  "delete_comic comic_id current_user d =
     (case scalar_one_or_none (filter (\<lambda>c. c_id c = comic_id) (comics d)) of
        Inl e \<Rightarrow> (Inl e, d)
      | Inr None \<Rightarrow> (Inl (HTTPException 404 ''Comic not found''), d)
      | Inr (Some comic) \<Rightarrow>
          if c_created_by comic \<noteq> Some (u_id current_user) \<and> \<not> u_is_admin current_user
          then (Inl (HTTPException 403 ''Not allowed to delete this comic''), d)
          else (Inr (), d\<lparr>comics := filter (\<lambda>c. c_id c \<noteq> comic_id) (comics d)\<rparr>))"

section \<open>ComicInfo exporter (app/services/comicinfo.py)\<close>

text \<open>An \<^verbatim>\<open>xml.etree\<close> element: tag, attributes, text and children.\<close>

datatype element = Element string "(string \<times> string) list" "string option" "element list"

fun children :: "element \<Rightarrow> element list" where
  "children (Element t a x cs) = cs"

fun tag :: "element \<Rightarrow> string" where
  "tag (Element t a x cs) = t"

fun text_of :: "element \<Rightarrow> string option" where
  "text_of (Element t a x cs) = x"

fun set_attrib :: "element \<Rightarrow> string \<Rightarrow> string \<Rightarrow> element" where
  "set_attrib (Element t a x cs) k v = Element t (AList.update k v a) x cs"

text \<open>\<^verbatim>\<open>SubElement(parent, tag)\<close> followed by \<^verbatim>\<open>el.text = txt\<close>.\<close>

fun SubElement :: "element \<Rightarrow> string \<Rightarrow> string \<Rightarrow> element" where
  "SubElement (Element t a x cs) tg txt = Element t a x (cs @ [Element tg [] (Some txt) []])"

text \<open>\<^verbatim>\<open>str(value)\<close>.  The decimal form of an integer is computed; the text of a float
  is left to the parameter \<open>fmt\<close>.\<close>

definition digit :: "nat \<Rightarrow> char" where
  "digit n = ''0123456789'' ! n"

fun str_nat :: "nat \<Rightarrow> string" where
  "str_nat n = (if n < 10 then [digit n] else str_nat (n div 10) @ [digit (n mod 10)])"

definition str_int :: "int \<Rightarrow> string" where
  "str_int i = (if i < 0 then CHR ''-'' # str_nat (nat (- i)) else str_nat (nat i))"

fun py_str :: "(rat \<Rightarrow> string) \<Rightarrow> val \<Rightarrow> string" where
  "py_str fmt (S s) = s"
| "py_str fmt (I i) = str_int i"
| "py_str fmt (B b) = (if b then ''True'' else ''False'')"
| "py_str fmt (F r) = fmt r"

definition add_if_present :: "(rat \<Rightarrow> string) \<Rightarrow> element \<Rightarrow> string \<Rightarrow> val option \<Rightarrow> element" where
  "add_if_present fmt parent tg v =
     (case v of None \<Rightarrow> parent | Some x \<Rightarrow> SubElement parent tg (py_str fmt x))"

text \<open>The element tree that \<^verbatim>\<open>generate_comicinfo_xml\<close> builds, statement by
  statement.\<close>

definition comicinfo_tree :: "(rat \<Rightarrow> string) \<Rightarrow> comic \<Rightarrow> element" where
  "comicinfo_tree fmt comic =
     (let col = c_attrs comic;
          root = Element ''ComicInfo'' [] None [];
          root = set_attrib root ''xmlns:xsi'' ''http://www.w3.org/2001/XMLSchema-instance'';
          root = set_attrib root ''xmlns:xsd'' ''http://www.w3.org/2001/XMLSchema'';
          root = add_if_present fmt root ''Title'' (col Title);
          root = add_if_present fmt root ''Series'' (col Series);
          root = add_if_present fmt root ''Number'' (col Number);
          root = add_if_present fmt root ''Count'' (col Count);
          root = add_if_present fmt root ''Volume'' (col Volume);
          root = add_if_present fmt root ''AlternateSeries'' (col Alternate_series);
          root = add_if_present fmt root ''AlternateNumber'' (col Alternate_number);
          root = add_if_present fmt root ''AlternateCount'' (col Alternate_count);
          root = add_if_present fmt root ''SeriesGroup'' (col Series_group);
          root = add_if_present fmt root ''Summary'' (col Summary);
          root = add_if_present fmt root ''Notes'' (col Notes);
          root = add_if_present fmt root ''Year'' (col Year);
          root = add_if_present fmt root ''Month'' (col Month);
          root = add_if_present fmt root ''Day'' (col Day);
          root = add_if_present fmt root ''Publisher'' (col Publisher);
          root = add_if_present fmt root ''Imprint'' (col Imprint);
          root = add_if_present fmt root ''Writer'' (col Writer);
          root = add_if_present fmt root ''Penciller'' (col Penciller);
          root = add_if_present fmt root ''Inker'' (col Inker);
          root = add_if_present fmt root ''Colorist'' (col Colorist);
          root = add_if_present fmt root ''Letterer'' (col Letterer);
          root = add_if_present fmt root ''CoverArtist'' (col Cover_artist);
          root = add_if_present fmt root ''Editor'' (col Editor);
          root = add_if_present fmt root ''Translator'' (col Translator);
          root = add_if_present fmt root ''Genre'' (col Genre);
          root = add_if_present fmt root ''Tags'' (col Tags);
          root = add_if_present fmt root ''Web'' (col Web);
          root = add_if_present fmt root ''Format'' (col Format);
          root = add_if_present fmt root ''AgeRating'' (col Age_rating);
          root = add_if_present fmt root ''LanguageISO'' (col Language_iso);
          root = add_if_present fmt root ''Manga'' (col Manga);
          root = (case col Is_bw of
                    None \<Rightarrow> root
                  | Some bw \<Rightarrow>
                      add_if_present fmt root ''BlackAndWhite''
                        (Some (S (if truthy bw then ''Yes'' else ''No''))));
          root = add_if_present fmt root ''CommunityRating'' (col Community_rating);
          root = add_if_present fmt root ''Review'' (col Review);
          root = add_if_present fmt root ''PageCount'' (col Page_count);
          root = (case col Isbn of
                    None \<Rightarrow> root
                  | Some v \<Rightarrow> if truthy v then add_if_present fmt root ''ISBN'' (col Isbn) else root);
          root = (case col Barcode of
                    None \<Rightarrow> root
                  | Some v \<Rightarrow>
                      if truthy v then add_if_present fmt root ''Barcode'' (col Barcode) else root)
      in root)"

text \<open>\<^verbatim>\<open>generate_comicinfo_xml\<close>: the tree, written out by the XML library
  (\<^verbatim>\<open>tostring\<close>, \<^verbatim>\<open>minidom.parseString\<close>, \<^verbatim>\<open>toprettyxml\<close>), the parameter
  \<open>pretty\<close>.\<close>

definition generate_comicinfo_xml ::
  "(element \<Rightarrow> string) \<Rightarrow> (rat \<Rightarrow> string) \<Rightarrow> comic \<Rightarrow> string" where
  "generate_comicinfo_xml pretty fmt comic = pretty (comicinfo_tree fmt comic)"

subsection \<open>The export as the specification words it\<close>

text \<open>The exported columns with their element names, in the order of the export:
  identification, summary and notes, publication date, publisher, the eight creator
  roles, classification, the black-and-white flag, rating and review, page count,
  identifiers.\<close>

definition export_order :: "(string \<times> field) list" where
  "export_order =
     [(''Title'', Title), (''Series'', Series), (''Number'', Number), (''Count'', Count),
      (''Volume'', Volume), (''AlternateSeries'', Alternate_series),
      (''AlternateNumber'', Alternate_number), (''AlternateCount'', Alternate_count),
      (''SeriesGroup'', Series_group), (''Summary'', Summary), (''Notes'', Notes),
      (''Year'', Year), (''Month'', Month), (''Day'', Day), (''Publisher'', Publisher),
      (''Imprint'', Imprint), (''Writer'', Writer), (''Penciller'', Penciller),
      (''Inker'', Inker), (''Colorist'', Colorist), (''Letterer'', Letterer),
      (''CoverArtist'', Cover_artist), (''Editor'', Editor), (''Translator'', Translator),
      (''Genre'', Genre), (''Tags'', Tags), (''Web'', Web), (''Format'', Format),
      (''AgeRating'', Age_rating), (''LanguageISO'', Language_iso), (''Manga'', Manga),
      (''BlackAndWhite'', Is_bw), (''CommunityRating'', Community_rating),
      (''Review'', Review), (''PageCount'', Page_count), (''ISBN'', Isbn),
      (''Barcode'', Barcode)]"

text \<open>A column is exported when it is not NULL and, for the ISBN and the barcode, not
  empty either.\<close>

definition exported :: "comic \<Rightarrow> field \<Rightarrow> bool" where
  "exported c f =
     (case c_attrs c f of
        None \<Rightarrow> False
      | Some v \<Rightarrow> if f = Isbn \<or> f = Barcode then truthy v else True)"

text \<open>The text of the element of a column: \<open>Yes\<close> or \<open>No\<close> for the black-and-white
  flag, the value as a string for every other column.\<close>

definition element_text :: "(rat \<Rightarrow> string) \<Rightarrow> comic \<Rightarrow> field \<Rightarrow> string" where
  "element_text fmt c f =
     (case c_attrs c f of
        None \<Rightarrow> []
      | Some v \<Rightarrow> if f = Is_bw then (if truthy v then ''Yes'' else ''No'') else py_str fmt v)"

definition export_children :: "(rat \<Rightarrow> string) \<Rightarrow> comic \<Rightarrow> element list" where
  "export_children fmt c =
     map (\<lambda>(tg, f). Element tg [] (Some (element_text fmt c f)) [])
         (filter (\<lambda>(tg, f). exported c f) export_order)"

definition xmlns :: "(string \<times> string) list" where
  "xmlns = [(''xmlns:xsi'', ''http://www.w3.org/2001/XMLSchema-instance''),
            (''xmlns:xsd'', ''http://www.w3.org/2001/XMLSchema'')]"

section \<open>Example store\<close>

text \<open>A small store on which the properties below are exercised: three users, of whom
  carol is inactive, and four API keys.  The stand-ins for the hash function and the
  token decoder are only used here.\<close>

definition alice :: user where
  "alice = \<lparr>u_id = ''u1'', u_username = ''alice'', u_email = ''alice@example.org'',
            u_hashed_password = ''x'', u_is_active = True, u_is_admin = False,
            u_created_at = 1, u_updated_at = 1\<rparr>"

definition bob :: user where
  "bob = \<lparr>u_id = ''u2'', u_username = ''bob'', u_email = ''bob@example.org'',
          u_hashed_password = ''y'', u_is_active = True, u_is_admin = False,
          u_created_at = 2, u_updated_at = 2\<rparr>"

definition carol :: user where
  "carol = \<lparr>u_id = ''u3'', u_username = ''carol'', u_email = ''carol@example.org'',
            u_hashed_password = ''z'', u_is_active = False, u_is_admin = False,
            u_created_at = 3, u_updated_at = 3\<rparr>"

definition root_user :: user where
  "root_user = \<lparr>u_id = ''u0'', u_username = ''root'', u_email = ''root@example.org'',
                u_hashed_password = ''r'', u_is_active = True, u_is_admin = True,
                u_created_at = 0, u_updated_at = 0\<rparr>"

definition demo_hash :: "string \<Rightarrow> string" where
  "demo_hash s = ''#'' @ s"

definition demo_key :: "uuid \<Rightarrow> uuid \<Rightarrow> string \<Rightarrow> bool \<Rightarrow> datetime option \<Rightarrow> api_key" where
  "demo_key kid uid secret active expires =
     \<lparr>k_id = kid, k_user_id = uid, k_name = ''key'', k_key_hash = demo_hash secret,
      k_key_prefix = take 10 secret, k_is_active = active, k_last_used_at = None,
      k_created_at = 5, k_expires_at = expires\<rparr>"

definition demo_dec :: "string \<Rightarrow> payload option" where
  "demo_dec t = (if t = ''token-alice'' then Some [(''sub'', S ''u1'')] else None)"

definition demo_db :: db where
  "demo_db = \<lparr>users = [alice, bob, carol],
               api_keys = [demo_key ''k1'' ''u2'' ''mng_bob'' True None,
                           demo_key ''k2'' ''u2'' ''mng_old'' True (Some 50),
                           demo_key ''k3'' ''u2'' ''mng_off'' False None,
                           demo_key ''k4'' ''u3'' ''mng_carol'' True None],
               comics = []\<rparr>"

text \<open>The default request of \<^verbatim>\<open>list_comics\<close> (no filter, page 1 of size 20, by
  title ascending) and three comics.\<close>

definition default_params :: search_params where
  "default_params =
     \<lparr>sp_q = None, sp_series = None, sp_publisher = None, sp_writer = None, sp_genre = None,
      sp_year_from = None, sp_year_to = None, sp_language = None, sp_manga = None,
      sp_age_rating = None, sp_page = 1, sp_page_size = 20, sp_sort_by = ''title'',
      sp_sort_order = ''asc''\<rparr>"

definition mk_comic :: "uuid \<Rightarrow> string \<Rightarrow> (field \<times> val) list \<Rightarrow> comic" where
  "mk_comic cid title extra =
     \<lparr>c_id = cid, c_attrs = map_of ((Title, S title) # extra), c_cover_image_path = None,
      c_created_at = 10, c_updated_at = 10, c_created_by = Some ''u1''\<rparr>"

definition watchmen :: comic where
  "watchmen = mk_comic ''c1'' ''Watchmen'' [(Year, I 1986), (Writer, S ''Alan Moore'')]"

definition maus :: comic where
  "maus = mk_comic ''c2'' ''Maus'' [(Year, I 1991), (Summary, S ''After Watchmen'')]"

definition abc :: comic where
  "abc = mk_comic ''c3'' ''abc'' []"

definition library_db :: db where
  "library_db = \<lparr>users = [alice, bob, root_user], api_keys = [], comics = [watchmen, maus, abc]\<rparr>"

text \<open>A shelf of 45 comics, issue \<open>n\<close> from the year \<open>1900 + n\<close>.\<close>

definition issue :: "nat \<Rightarrow> comic" where
  "issue n = mk_comic (str_nat n) ''Issue'' [(Year, I (1900 + int n))]"

definition shelf_db :: db where
  "shelf_db = \<lparr>users = [alice], api_keys = [], comics = map issue [1..<46]\<rparr>"

text \<open>A PATCH body that gives a summary, gives \<^verbatim>\<open>null\<close> for the notes and leaves
  every other member out.\<close>

definition summary_only :: "field \<Rightarrow> json_member" where
  "summary_only f =
     (if f = Summary then Given (S ''Who watches?'') else if f = Notes then Null else Omitted)"

text \<open>A comic with only its title set, and one with an empty series, an empty ISBN
  and a cover URL.\<close>

definition title_only :: comic where
  "title_only = mk_comic ''c5'' ''Watchmen'' []"

definition saga :: comic where
  "saga = mk_comic ''c4'' ''Saga''
            [(Series, S ''''), (Is_bw, B False), (Isbn, S ''''), (Cover_url, S ''https://x/1.png'')]"

definition no_floats :: "rat \<Rightarrow> string" where
  "no_floats r = ''''"

section \<open>Properties of the credential resolver\<close>

lemmas demo_defs =
  alice_def bob_def carol_def root_user_def demo_hash_def demo_key_def demo_dec_def demo_db_def

lemma filter_distinct_key:
  assumes "distinct (map f xs)" "x \<in> set xs"
  shows "filter (\<lambda>y. f y = f x \<and> P y) xs = (if P x then [x] else [])"
  using assms
proof (induction xs)
  case Nil
  then show ?case by simp
next
  case (Cons a xs)
  show ?case
  proof (cases "a = x")
    case True
    with Cons.prems have "\<forall>y\<in>set xs. f y \<noteq> f x" by (auto simp: image_iff)
    then have "filter (\<lambda>y. f y = f x \<and> P y) xs = []" by (simp add: filter_empty_conv)
    with True show ?thesis by simp
  next
    case False
    with Cons.prems have "x \<in> set xs" "f a \<noteq> f x" "distinct (map f xs)"
      by (auto simp: image_iff)
    with Cons.IH show ?thesis by simp
  qed
qed

lemma scalar_one_or_none_Some:
  "scalar_one_or_none xs = Inr (Some x) \<Longrightarrow> xs = [x]"
  by (cases xs rule: scalar_one_or_none.cases) auto

lemma scalar_unique_no_raise:
  assumes "distinct (map f xs)"
  shows "\<exists>r. scalar_one_or_none (filter (\<lambda>y. f y = v \<and> P y) xs) = Inr r"
proof (cases "\<exists>x\<in>set xs. f x = v")
  case True
  then obtain x where x: "x \<in> set xs" "f x = v" by blast
  from filter_distinct_key [OF assms x(1), of P] x(2)
  have "filter (\<lambda>y. f y = v \<and> P y) xs = (if P x then [x] else [])" by simp
  then show ?thesis by simp
next
  case False
  then have "filter (\<lambda>y. f y = v \<and> P y) xs = []" by (auto simp: filter_empty_conv)
  then show ?thesis by simp
qed

lemma users_touch [simp]: "users (touch_last_used now obj d) = users d"
  by (simp add: touch_last_used_def)

lemma comics_touch [simp]: "comics (touch_last_used now obj d) = comics d"
  by (simp add: touch_last_used_def)

lemma token_user_valid:
  assumes "get_current_user_from_token dec credentials d = Inr (Some u)"
  shows "u \<in> set (users d) \<and> u_is_active u"
proof -
  from assms obtain uid where
    "scalar_one_or_none (filter (\<lambda>u. S (u_id u) = uid \<and> u_is_active u) (users d)) = Inr (Some u)"
    by (auto simp: get_current_user_from_token_def split: option.splits if_splits)
  then have "filter (\<lambda>u. S (u_id u) = uid \<and> u_is_active u) (users d) = [u]"
    by (rule scalar_one_or_none_Some)
  then have "u \<in> set (filter (\<lambda>u. S (u_id u) = uid \<and> u_is_active u) (users d))" by simp
  then show ?thesis by simp
qed

lemma key_resolver_no_raise:
  assumes hk: "distinct (map k_key_hash (api_keys d))" and hu: "distinct (map u_id (users d))"
  shows "\<exists>r. fst (get_current_user_from_api_key H now api_key d) = Inr r"
proof (cases api_key)
  case None
  then show ?thesis by (simp add: get_current_user_from_api_key_def)
next
  case (Some key)
  from scalar_unique_no_raise [OF hk, of "H key" k_is_active]
  obtain r where r:
    "scalar_one_or_none (filter (\<lambda>k. k_key_hash k = H key \<and> k_is_active k) (api_keys d)) = Inr r"
    by blast
  show ?thesis
  proof (cases r)
    case None
    with r Some show ?thesis by (simp add: get_current_user_from_api_key_def)
  next
    case (Some obj)
    from scalar_unique_no_raise [OF hu, of "k_user_id obj" u_is_active]
    obtain r' where
      "scalar_one_or_none (filter (\<lambda>u. u_id u = k_user_id obj \<and> u_is_active u) (users d)) = Inr r'"
      by blast
    with r Some \<open>api_key = Some key\<close> show ?thesis
      by (simp add: get_current_user_from_api_key_def Let_def)
  qed
qed

text \<open>
  Claim C1.  In a store whose key hashes and user ids are unique (the constraints of the
  schema), for every pair of credentials: when the bearer token resolves to a user, that
  user is a stored, active user and is the principal of the request, whatever the API-key
  header resolves to; and when neither the token nor the key resolves to a user, the
  request is rejected with HTTP 401 ("Not authenticated").
\<close>

theorem resolver_precedence:
  assumes hk: "distinct (map k_key_hash (api_keys d))" and hu: "distinct (map u_id (users d))"
  shows "(get_current_user_from_token dec credentials d = Inr (Some u) \<longrightarrow>
            fst (resolve_principal dec H now credentials api_key d) = Inr u
          \<and> u \<in> set (users d) \<and> u_is_active u)
       \<and> (get_current_user_from_token dec credentials d = Inr None
          \<and> fst (get_current_user_from_api_key H now api_key d) = Inr None \<longrightarrow>
            fst (resolve_principal dec H now credentials api_key d)
              = Inl (HTTPException 401 ''Not authenticated''))"
proof (intro conjI impI)
  assume t: "get_current_user_from_token dec credentials d = Inr (Some u)"
  from key_resolver_no_raise [OF hk hu, of H now api_key]
  obtain r where "fst (get_current_user_from_api_key H now api_key d) = Inr r" by blast
  then obtain d' where "get_current_user_from_api_key H now api_key d = (Inr r, d')"
    by (cases "get_current_user_from_api_key H now api_key d") auto
  with t show "fst (resolve_principal dec H now credentials api_key d) = Inr u"
    by (simp add: resolve_principal_def get_current_user_def)
  from token_user_valid [OF t] show "u \<in> set (users d)" "u_is_active u" by simp_all
next
  assume n: "get_current_user_from_token dec credentials d = Inr None
          \<and> fst (get_current_user_from_api_key H now api_key d) = Inr None"
  then obtain d' where "get_current_user_from_api_key H now api_key d = (Inr None, d')"
    by (cases "get_current_user_from_api_key H now api_key d") auto
  with n show "fst (resolve_principal dec H now credentials api_key d)
              = Inl (HTTPException 401 ''Not authenticated'')"
    by (simp add: resolve_principal_def get_current_user_def)
qed

text \<open>On the example store: alice's token together with bob's valid key resolves to
  alice, although the key alone resolves to bob; an unknown token together with an
  unknown key is rejected with 401.\<close>

theorem resolver_precedence_witness:
  "distinct (map k_key_hash (api_keys demo_db)) \<and> distinct (map u_id (users demo_db))
   \<and> get_current_user_from_token demo_dec (Some ''token-alice'') demo_db = Inr (Some alice)
   \<and> fst (get_current_user_from_api_key demo_hash 100 (Some ''mng_bob'') demo_db) = Inr (Some bob)
   \<and> fst (resolve_principal demo_dec demo_hash 100 (Some ''token-alice'') (Some ''mng_bob'') demo_db)
       = Inr alice
   \<and> get_current_user_from_token demo_dec (Some ''forged'') demo_db = Inr None
   \<and> fst (get_current_user_from_api_key demo_hash 100 (Some ''mng_none'') demo_db) = Inr None
   \<and> fst (resolve_principal demo_dec demo_hash 100 (Some ''forged'') (Some ''mng_none'') demo_db)
       = Inl (HTTPException 401 ''Not authenticated'')"
proof -
  have hk: "distinct (map k_key_hash (api_keys demo_db))" by (simp add: demo_defs)
  have hu: "distinct (map u_id (users demo_db))" by (simp add: demo_defs)
  have t: "get_current_user_from_token demo_dec (Some ''token-alice'') demo_db = Inr (Some alice)"
    by (simp add: demo_defs get_current_user_from_token_def)
  have k: "fst (get_current_user_from_api_key demo_hash 100 (Some ''mng_bob'') demo_db)
             = Inr (Some bob)"
    by (simp add: demo_defs get_current_user_from_api_key_def touch_last_used_def)
  have t': "get_current_user_from_token demo_dec (Some ''forged'') demo_db = Inr None"
    by (simp add: demo_defs get_current_user_from_token_def)
  have k': "fst (get_current_user_from_api_key demo_hash 100 (Some ''mng_none'') demo_db) = Inr None"
    by (simp add: demo_defs get_current_user_from_api_key_def touch_last_used_def)
  from resolver_precedence [OF hk hu, of demo_dec "Some ''token-alice''" alice demo_hash 100
      "Some ''mng_bob''"] t
  have r1: "fst (resolve_principal demo_dec demo_hash 100 (Some ''token-alice'') (Some ''mng_bob'')
              demo_db) = Inr alice" by blast
  from resolver_precedence [OF hk hu, of demo_dec "Some ''forged''" alice demo_hash 100
      "Some ''mng_none''"] t' k'
  have r2: "fst (resolve_principal demo_dec demo_hash 100 (Some ''forged'') (Some ''mng_none'')
              demo_db) = Inl (HTTPException 401 ''Not authenticated'')" by blast
  from hk hu t k r1 t' k' r2 show ?thesis by blast
qed

text \<open>
  Claim C2.  In a store with unique key hashes, when the hash of the presented key is that
  of a stored key, and the stored key is inactive, or its expiry timestamp is before the
  current time, or no active user owns it, then the key resolver returns no principal.
\<close>

theorem key_resolution_rejects:
  assumes k: "k \<in> set (api_keys d)" and h: "k_key_hash k = H key"
    and hk: "distinct (map k_key_hash (api_keys d))"
    and bad: "\<not> k_is_active k \<or> (\<exists>e. k_expires_at k = Some e \<and> e < now)
              \<or> (\<forall>u\<in>set (users d). u_id u = k_user_id k \<longrightarrow> \<not> u_is_active u)"
  shows "fst (get_current_user_from_api_key H now (Some key) d) = Inr None"
proof -
  from filter_distinct_key [OF hk k, of k_is_active] h
  have rows: "filter (\<lambda>y. k_key_hash y = H key \<and> k_is_active y) (api_keys d)
                = (if k_is_active k then [k] else [])" by simp
  show ?thesis
  proof (cases "k_is_active k")
    case False
    with rows show ?thesis by (simp add: get_current_user_from_api_key_def)
  next
    case True
    show ?thesis
    proof (cases "\<exists>e. k_expires_at k = Some e \<and> e < now")
      case True
      with rows \<open>k_is_active k\<close> show ?thesis
        by (auto simp: get_current_user_from_api_key_def)
    next
      case False
      with bad \<open>k_is_active k\<close>
      have "\<forall>u\<in>set (users d). u_id u = k_user_id k \<longrightarrow> \<not> u_is_active u" by blast
      then have "filter (\<lambda>u. u_id u = k_user_id k \<and> u_is_active u) (users d) = []"
        by (auto simp: filter_empty_conv)
      with rows \<open>k_is_active k\<close> show ?thesis
        by (simp add: get_current_user_from_api_key_def Let_def split: option.splits)
    qed
  qed
qed

text \<open>On the example store at time 100: the key that expired at time 50, the inactive
  key and the key of the inactive user carol are each presented with their correct
  secret, and none resolves.\<close>

theorem key_resolution_rejects_witness:
  "distinct (map k_key_hash (api_keys demo_db))
   \<and> fst (get_current_user_from_api_key demo_hash 100 (Some ''mng_old'') demo_db) = Inr None
   \<and> fst (get_current_user_from_api_key demo_hash 100 (Some ''mng_off'') demo_db) = Inr None
   \<and> fst (get_current_user_from_api_key demo_hash 100 (Some ''mng_carol'') demo_db) = Inr None"
proof -
  have hk: "distinct (map k_key_hash (api_keys demo_db))" by (simp add: demo_defs)
  have "fst (get_current_user_from_api_key demo_hash 100 (Some ''mng_old'') demo_db) = Inr None"
    by (rule key_resolution_rejects
          [where k = "demo_key ''k2'' ''u2'' ''mng_old'' True (Some 50)"])
       (simp_all add: demo_defs)
  moreover
  have "fst (get_current_user_from_api_key demo_hash 100 (Some ''mng_off'') demo_db) = Inr None"
    by (rule key_resolution_rejects
          [where k = "demo_key ''k3'' ''u2'' ''mng_off'' False None"])
       (simp_all add: demo_defs)
  moreover
  have "fst (get_current_user_from_api_key demo_hash 100 (Some ''mng_carol'') demo_db) = Inr None"
    by (rule key_resolution_rejects
          [where k = "demo_key ''k4'' ''u3'' ''mng_carol'' True None"])
       (simp_all add: demo_defs)
  ultimately show ?thesis using hk by blast
qed

section \<open>Properties of the search query compiler\<close>

lemma sql_and_True: "sql_and xs = Some True \<longleftrightarrow> (\<forall>x\<in>set xs. x = Some True)"
  by (induction xs) (auto split: option.splits bool.splits)

lemma sql_or_True: "sql_or xs = Some True \<longleftrightarrow> (\<exists>x\<in>set xs. x = Some True)"
  by (induction xs) (auto split: option.splits bool.splits)

lemma where_rows_filter:
  "where_rows fs rows = filter (\<lambda>c. sql_and (map (\<lambda>x. eval_cond x c) fs) = Some True) rows"
  by (simp add: where_rows_def)

subsection \<open>A plain search text is matched as a substring\<close>

lemma lower_char_plain:
  assumes "c \<noteq> CHR ''%''" "c \<noteq> CHR ''_''" "c \<noteq> CHR 0x5C"
  shows "lower_char c \<noteq> CHR ''%'' \<and> lower_char c \<noteq> CHR ''_'' \<and> lower_char c \<noteq> CHR 0x5C"
proof (cases "map_of (zip ''ABCDEFGHIJKLMNOPQRSTUVWXYZ'' ''abcdefghijklmnopqrstuvwxyz'') c")
  case None
  with assms show ?thesis by (simp add: lower_char_def)
next
  case (Some l)
  then have "l \<in> set ''abcdefghijklmnopqrstuvwxyz''"
    by (meson map_of_SomeD set_zip_rightD)
  then have "l \<noteq> CHR ''%'' \<and> l \<noteq> CHR ''_'' \<and> l \<noteq> CHR 0x5C" by auto
  with Some show ?thesis by (simp add: lower_char_def)
qed

lemma lower_plain: "plain q \<Longrightarrow> plain (lower q)"
  by (induction q) (simp_all add: plain_def lower_def lower_char_plain)

lemma lower_pct: "lower (pct q) = pct (lower q)"
  by (simp add: lower_def pct_def lower_char_def)

lemma like_match_pct_only: "like_match ''%'' s"
  by (induction s) auto

lemma like_match_plain_prefix:
  "plain q \<Longrightarrow> like_match (q @ ''%'') s \<longleftrightarrow> prefix q s"
proof (induction q arbitrary: s)
  case Nil
  then show ?case using like_match_pct_only by simp
next
  case (Cons a q)
  then have a: "a \<noteq> CHR ''%''" "a \<noteq> CHR ''_''" "a \<noteq> CHR 0x5C" and q: "plain q"
    by (simp_all add: plain_def)
  show ?case
  proof (cases s)
    case Nil
    with a show ?thesis by simp
  next
    case (Cons c t)
    with a Cons.IH [OF q, of t] show ?thesis by auto
  qed
qed

lemma like_match_pct_suffix:
  "like_match (CHR ''%'' # ps) s \<longleftrightarrow> (\<exists>t. suffix t s \<and> like_match ps t)"
proof (induction s)
  case Nil
  then show ?case by simp
next
  case (Cons c s)
  have "like_match (CHR ''%'' # ps) (c # s)
          \<longleftrightarrow> like_match ps (c # s) \<or> like_match (CHR ''%'' # ps) s" by simp
  also have "\<dots> \<longleftrightarrow> like_match ps (c # s) \<or> (\<exists>t. suffix t s \<and> like_match ps t)"
    using Cons.IH by simp
  also have "\<dots> \<longleftrightarrow> (\<exists>t. suffix t (c # s) \<and> like_match ps t)"
    by (auto simp: suffix_Cons)
  finally show ?case .
qed

lemma like_match_substring:
  assumes "plain q"
  shows "like_match (pct q) s \<longleftrightarrow> sublist q s"
proof -
  have "like_match (pct q) s \<longleftrightarrow> (\<exists>t. suffix t s \<and> like_match (q @ ''%'') t)"
    using like_match_pct_suffix [of "q @ ''%''" s] by (simp add: pct_def)
  also have "\<dots> \<longleftrightarrow> (\<exists>t. suffix t s \<and> prefix q t)"
    using like_match_plain_prefix [OF assms] by simp
  also have "\<dots> \<longleftrightarrow> sublist q s"
    by (simp add: sublist_altdef')
  finally show ?thesis .
qed

lemma ilike_contains: "plain q \<Longrightarrow> ilike (pct q) v \<longleftrightarrow> sublist (lower q) (lower v)"
  by (simp add: ilike_def lower_pct like_match_substring lower_plain)

subsection \<open>Each compiled expression against its wording\<close>

lemma eval_ilike:
  "plain q \<Longrightarrow> eval_cond (ILike f (pct q)) c = Some True \<longleftrightarrow> contains_ci c f q"
  by (simp add: contains_ci_def ilike_contains split: option.splits val.splits)

lemma eval_ge: "eval_cond (Ge Year y) c = Some True \<longleftrightarrow> year_at_least c y"
  by (simp add: year_at_least_def split: option.splits val.splits)

lemma eval_le: "eval_cond (Le Year y) c = Some True \<longleftrightarrow> year_at_most c y"
  by (simp add: year_at_most_def split: option.splits val.splits)

lemma eval_eq: "eval_cond (Eq f s) c = Some True \<longleftrightarrow> c_attrs c f = Some (S s)"
  by (simp split: option.splits val.splits)

lemma all_when_str:
  "(\<forall>x\<in>set (when_str v mk). P x)
     \<longleftrightarrow> (case str_or_none v of None \<Rightarrow> True | Some s \<Rightarrow> P (mk s))"
  by (cases v) (simp_all add: when_str_def)

lemma all_when_int:
  "(\<forall>x\<in>set (when_int v mk). P x)
     \<longleftrightarrow> (case int_or_none v of None \<Rightarrow> True | Some s \<Rightarrow> P (mk s))"
  by (cases v) (simp_all add: when_int_def)

lemma free_text_conjunct:
  assumes "plain_opt v"
  shows "(case str_or_none v of None \<Rightarrow> True
          | Some q \<Rightarrow> eval_cond (Or [ILike Title (pct q), ILike Series (pct q),
                         ILike Summary (pct q), ILike Writer (pct q), ILike Publisher (pct q)]) c
                       = Some True)
       \<longleftrightarrow> (case str_or_none v of None \<Rightarrow> True
            | Some q \<Rightarrow> contains_ci c Title q \<or> contains_ci c Series q \<or> contains_ci c Summary q
                     \<or> contains_ci c Writer q \<or> contains_ci c Publisher q)"
proof (cases v)
  case None
  then show ?thesis by simp
next
  case (Some q)
  with assms have "plain q" by simp
  then have "eval_cond (Or [ILike Title (pct q), ILike Series (pct q),
                 ILike Summary (pct q), ILike Writer (pct q), ILike Publisher (pct q)]) c
               = Some True
             \<longleftrightarrow> contains_ci c Title q \<or> contains_ci c Series q \<or> contains_ci c Summary q
                     \<or> contains_ci c Writer q \<or> contains_ci c Publisher q"
    unfolding eval_cond.simps(5) sql_or_True
    by (simp only: list.map list.set bex_simps insert_iff eval_ilike) blast
  with Some show ?thesis by simp
qed

lemma substring_conjunct:
  assumes "plain_opt v"
  shows "(case str_or_none v of None \<Rightarrow> True
          | Some s \<Rightarrow> eval_cond (ILike f (pct s)) c = Some True)
       \<longleftrightarrow> (case str_or_none v of None \<Rightarrow> True | Some s \<Rightarrow> contains_ci c f s)"
  using assms by (cases v) (simp_all add: eval_ilike del: eval_cond.simps)

lemma kept_iff_spec:
  assumes "plain_params p"
  shows "sql_and (map (\<lambda>x. eval_cond x c) (build_search_query p)) = Some True
         \<longleftrightarrow> spec_filter (falsy_absent p) c"
proof -
  from assms have pl: "plain_opt (sp_q p)" "plain_opt (sp_series p)" "plain_opt (sp_publisher p)"
    "plain_opt (sp_writer p)" "plain_opt (sp_genre p)"
    by (simp_all add: plain_params_def)
  have "sql_and (map (\<lambda>x. eval_cond x c) (build_search_query p)) = Some True
         \<longleftrightarrow> (\<forall>x\<in>set (build_search_query p). eval_cond x c = Some True)"
    by (simp add: sql_and_True)
  also have "\<dots> \<longleftrightarrow> spec_filter (falsy_absent p) c"
    unfolding build_search_query_def set_append ball_Un all_when_str all_when_int
      free_text_conjunct [OF pl(1)] substring_conjunct [OF pl(2)] substring_conjunct [OF pl(3)]
      substring_conjunct [OF pl(4)] substring_conjunct [OF pl(5)] eval_ge eval_le eval_eq
    by (simp add: spec_filter_def falsy_absent_def)
  finally show ?thesis .
qed

text \<open>
  Claim C9, as amended.  For every search request whose text filters hold no \<^verbatim>\<open>LIKE\<close>
  metacharacter (\<^verbatim>\<open>%\<close>, \<^verbatim>\<open>_\<close>, backslash), the rows that the compiled filter keeps
  are exactly the rows that satisfy the conjunction of the filters with a truthy value
  (a non-empty string, a year other than 0): the free text \<open>q\<close> as a case-insensitive
  substring of any of title, series, summary, writer or publisher, the series,
  publisher, writer and genre filters as case-insensitive substrings of their column,
  \<open>year_from\<close> and \<open>year_to\<close> as inclusive bounds on the year, and language, manga and
  age rating as equalities.
\<close>

theorem compiled_filter_semantics:
  assumes "plain_params p"
  shows "where_rows (build_search_query p) rows = filter (spec_filter (falsy_absent p)) rows"
  by (simp add: where_rows_filter kept_iff_spec [OF assms])

text \<open>On three comics: the request for \<open>WATCH\<close> between 1980 and 1990, with an empty
  genre filter, keeps Watchmen (1986) only; Maus matches the text in its summary but is
  from 1991.\<close>

theorem compiled_filter_semantics_witness:
  "plain_params (default_params\<lparr>sp_q := Some ''WATCH'', sp_year_from := Some 1980,
                                 sp_year_to := Some 1990, sp_genre := Some ''''\<rparr>)
   \<and> where_rows (build_search_query (default_params\<lparr>sp_q := Some ''WATCH'',
         sp_year_from := Some 1980, sp_year_to := Some 1990, sp_genre := Some ''''\<rparr>))
         [watchmen, maus, abc] = [watchmen]"
proof -
  let ?p = "default_params\<lparr>sp_q := Some ''WATCH'', sp_year_from := Some 1980,
                                 sp_year_to := Some 1990, sp_genre := Some ''''\<rparr>"
  have pl: "plain_params ?p"
    by (simp add: plain_params_def default_params_def plain_def)
  have "where_rows (build_search_query ?p) [watchmen, maus, abc]
          = filter (spec_filter (falsy_absent ?p)) [watchmen, maus, abc]"
    by (rule compiled_filter_semantics [OF pl])
  also have "\<dots> = [watchmen]"
    by (simp add: default_params_def falsy_absent_def spec_filter_def watchmen_def maus_def
          abc_def mk_comic_def contains_ci_def year_at_least_def year_at_most_def
          lower_def lower_char_def sublist_Cons_right prefix_Cons)
  finally show ?thesis using pl by simp
qed

text \<open>The claim as stated fails twice.  With \<open>year_from = 0\<close> present, the comic without
  a year is kept, although no year satisfies the bound; and the free text \<open>a_c\<close> keeps
  the comic titled \<open>abc\<close>, which does not contain it.\<close>

theorem search_filter_counterexample:
  "where_rows (build_search_query (default_params\<lparr>sp_year_from := Some 0\<rparr>)) [abc]
     \<noteq> filter (spec_filter (default_params\<lparr>sp_year_from := Some 0\<rparr>)) [abc]
   \<and> where_rows (build_search_query (default_params\<lparr>sp_q := Some ''a_c''\<rparr>)) [abc]
     \<noteq> filter (spec_filter (default_params\<lparr>sp_q := Some ''a_c''\<rparr>)) [abc]"
  by (simp add: default_params_def abc_def mk_comic_def build_search_query_def
        when_str_def when_int_def where_rows_def spec_filter_def year_at_least_def
        contains_ci_def pct_def ilike_def lower_def lower_char_def sublist_Cons_right prefix_Cons)

subsection \<open>Falsy filter values\<close>

lemma when_str_falsy: "when_str (str_or_none v) mk = when_str v mk"
  by (cases v) (simp_all add: when_str_def)

lemma when_int_falsy: "when_int (int_or_none v) mk = when_int v mk"
  by (cases v) (simp_all add: when_int_def)

lemma build_falsy_absent: "build_search_query (falsy_absent p) = build_search_query p"
  by (simp add: build_search_query_def falsy_absent_def when_str_falsy when_int_falsy)

lemma list_comics_cong:
  assumes "build_search_query p = build_search_query p'"
    and "sp_page p = sp_page p'" "sp_page_size p = sp_page_size p'"
    and "sp_sort_by p = sp_sort_by p'" "sp_sort_order p = sp_sort_order p'"
  shows "list_comics p d = list_comics p' d"
  unfolding list_comics_def assms ..

text \<open>
  Claim C10.  A filter value that is present but falsy is not applied: the request in
  which every empty string and every year 0 is replaced by None compiles to the same
  filters and lists the same page; in particular each of the ten filters, given as the
  empty string (as 0 for the two year bounds), compiles as if it were left out, and
  \<open>q = ""\<close> lists what the request without \<open>q\<close> lists.
\<close>

theorem falsy_filter_not_applied:
  "build_search_query (falsy_absent p) = build_search_query p
   \<and> list_comics (falsy_absent p) d = list_comics p d
   \<and> build_search_query (p\<lparr>sp_q := Some ''''\<rparr>) = build_search_query (p\<lparr>sp_q := None\<rparr>)
   \<and> build_search_query (p\<lparr>sp_series := Some ''''\<rparr>) = build_search_query (p\<lparr>sp_series := None\<rparr>)
   \<and> build_search_query (p\<lparr>sp_publisher := Some ''''\<rparr>)
       = build_search_query (p\<lparr>sp_publisher := None\<rparr>)
   \<and> build_search_query (p\<lparr>sp_writer := Some ''''\<rparr>) = build_search_query (p\<lparr>sp_writer := None\<rparr>)
   \<and> build_search_query (p\<lparr>sp_genre := Some ''''\<rparr>) = build_search_query (p\<lparr>sp_genre := None\<rparr>)
   \<and> build_search_query (p\<lparr>sp_year_from := Some 0\<rparr>)
       = build_search_query (p\<lparr>sp_year_from := None\<rparr>)
   \<and> build_search_query (p\<lparr>sp_year_to := Some 0\<rparr>) = build_search_query (p\<lparr>sp_year_to := None\<rparr>)
   \<and> build_search_query (p\<lparr>sp_language := Some ''''\<rparr>)
       = build_search_query (p\<lparr>sp_language := None\<rparr>)
   \<and> build_search_query (p\<lparr>sp_manga := Some ''''\<rparr>) = build_search_query (p\<lparr>sp_manga := None\<rparr>)
   \<and> build_search_query (p\<lparr>sp_age_rating := Some ''''\<rparr>)
       = build_search_query (p\<lparr>sp_age_rating := None\<rparr>)
   \<and> list_comics (p\<lparr>sp_q := Some ''''\<rparr>) d = list_comics (p\<lparr>sp_q := None\<rparr>) d"
proof -
  have 1: "build_search_query (falsy_absent p) = build_search_query p"
    by (rule build_falsy_absent)
  have 2: "list_comics (falsy_absent p) d = list_comics p d"
    by (rule list_comics_cong) (simp_all add: build_falsy_absent, simp_all add: falsy_absent_def)
  have 3: "build_search_query (p\<lparr>sp_q := Some ''''\<rparr>) = build_search_query (p\<lparr>sp_q := None\<rparr>)"
    by (simp add: build_search_query_def when_str_def)
  have 4: "list_comics (p\<lparr>sp_q := Some ''''\<rparr>) d = list_comics (p\<lparr>sp_q := None\<rparr>) d"
    by (rule list_comics_cong) (simp_all add: 3)
  show ?thesis
    using 1 2 3 4 by (simp add: build_search_query_def when_str_def when_int_def)
qed

text \<open>On the default request: an empty \<open>q\<close> with \<open>year_from = 0\<close> compiles to no filter
  at all, an empty \<open>q\<close> with \<open>year_to = 1990\<close> to the year bound only.\<close>

theorem falsy_filter_not_applied_witness:
  "build_search_query (default_params\<lparr>sp_q := Some '''', sp_year_from := Some 0\<rparr>) = []
   \<and> build_search_query (default_params\<lparr>sp_q := Some '''', sp_year_to := Some 1990\<rparr>)
       = [Le Year 1990]
   \<and> list_comics (default_params\<lparr>sp_q := Some ''''\<rparr>) library_db
       = list_comics (default_params\<lparr>sp_q := None\<rparr>) library_db"
proof -
  let ?p = "default_params\<lparr>sp_q := Some '''', sp_year_from := Some 0\<rparr>"
  let ?p' = "default_params\<lparr>sp_q := Some '''', sp_year_to := Some 1990\<rparr>"
  have "build_search_query ?p = build_search_query (falsy_absent ?p)"
    using falsy_filter_not_applied [of ?p library_db] by simp
  also have "\<dots> = []"
    by (simp add: falsy_absent_def default_params_def build_search_query_def when_str_def
          when_int_def)
  finally have a: "build_search_query ?p = []" .
  have "build_search_query ?p' = build_search_query (falsy_absent ?p')"
    using falsy_filter_not_applied [of ?p' library_db] by simp
  also have "\<dots> = [Le Year 1990]"
    by (simp add: falsy_absent_def default_params_def build_search_query_def when_str_def
          when_int_def)
  finally have b: "build_search_query ?p' = [Le Year 1990]" .
  from falsy_filter_not_applied [of default_params "library_db"]
  have c: "list_comics (default_params\<lparr>sp_q := Some ''''\<rparr>) library_db
       = list_comics (default_params\<lparr>sp_q := None\<rparr>) library_db"
    by blast
  from a b c show ?thesis by blast
qed

section \<open>Properties of the listing\<close>

lemma length_insert_by [simp]: "length (insert_by le x xs) = Suc (length xs)"
  by (induction xs) simp_all

lemma mset_insert_by [simp]: "mset (insert_by le x xs) = add_mset x (mset xs)"
  by (induction xs) simp_all

lemma mset_order_by: "mset (order_by a k xs) = mset xs"
  unfolding order_by_def by (induction xs) simp_all

lemma length_order_by: "length (order_by a k xs) = length xs"
  using mset_order_by [of a k xs] by (metis size_mset)

lemma list_comics_ok:
  assumes "1 \<le> sp_page p" "1 \<le> sp_page_size p" "sp_page_size p \<le> 100"
    and "sort_column (sp_sort_by p) = Some col"
    and "sp_sort_order p = ''asc'' \<or> sp_sort_order p = ''desc''"
  shows "list_comics p d =
     Inr \<lparr>pc_total = length (where_rows (build_search_query p) (comics d)),
          pc_page = sp_page p, pc_page_size = sp_page_size p,
          pc_results = map ComicListOut
             (take (nat (sp_page_size p))
               (drop (nat ((sp_page p - 1) * sp_page_size p))
                 (order_by (sp_sort_order p = ''asc'') col
                    (where_rows (build_search_query p) (comics d)))))\<rparr>"
  using assms by (auto simp: list_comics_def Let_def)

lemma list_comics_rejects:
  assumes "sp_page p < 1 \<or> sp_page_size p < 1 \<or> 100 < sp_page_size p"
  shows "list_comics p d = Inl RequestValidationError"
  using assms by (auto simp: list_comics_def)

lemma page_of_ordered:
  assumes page: "1 \<le> sp_page p" and size: "1 \<le> sp_page_size p" "sp_page_size p \<le> 100"
    and col: "sort_column (sp_sort_by p) = Some col"
    and dir: "sp_sort_order p = ''asc'' \<or> sp_sort_order p = ''desc''"
    and rows: "rows = where_rows (build_search_query p) (comics d)"
    and ordered: "ordered = order_by (sp_sort_order p = ''asc'') col rows"
    and skip: "skip = nat ((sp_page p - 1) * sp_page_size p)"
  shows "\<exists>r. list_comics p d = Inr r
           \<and> pc_total r = length rows
           \<and> mset ordered = mset rows
           \<and> pc_results r = map ComicListOut (take (nat (sp_page_size p)) (drop skip ordered))
           \<and> length (pc_results r) = min (nat (sp_page_size p)) (length rows - skip)
           \<and> (\<forall>i<length (pc_results r). pc_results r ! i = ComicListOut (ordered ! (skip + i)))"
proof -
  let ?r = "\<lparr>pc_total = length rows, pc_page = sp_page p, pc_page_size = sp_page_size p,
             pc_results = map ComicListOut (take (nat (sp_page_size p)) (drop skip ordered))\<rparr>"
  have r: "list_comics p d = Inr ?r"
    using list_comics_ok [OF page size col dir, of d] by (simp add: rows ordered skip)
  have len: "length ordered = length rows"
    by (simp add: ordered length_order_by)
  have "length (pc_results ?r) = min (nat (sp_page_size p)) (length rows - skip)"
    by (simp add: len min.commute)
  moreover have "\<forall>i<length (pc_results ?r). pc_results ?r ! i = ComicListOut (ordered ! (skip + i))"
  proof (intro allI impI)
    fix i assume "i < length (pc_results ?r)"
    then have i: "i < length ordered - skip" "i < nat (sp_page_size p)" by simp_all
    then have "skip \<le> length ordered" by simp
    with i show "pc_results ?r ! i = ComicListOut (ordered ! (skip + i))" by simp
  qed
  moreover have "mset ordered = mset rows" by (simp add: ordered mset_order_by)
  ultimately show ?thesis using r by auto
qed

text \<open>
  Claim C3.  A request with \<open>page < 1\<close> or \<open>page_size\<close> outside \<open>[1, 100]\<close> is rejected.
  Otherwise the listing succeeds; its total is the number of rows that match the
  filters, whatever the page; its results are the rows of the ordered matching rows (a
  permutation of the matching rows) from which the first \<open>(page - 1) * page_size\<close> are
  skipped and of which at most \<open>page_size\<close> are taken, so result \<open>i\<close> is the ordered row
  at position \<open>(page - 1) * page_size + i\<close>.  In particular page 2 of size 20 over 45
  matching rows has total 45 and holds the 20 rows after the first 20, the rows 21 to 40.
\<close>

theorem list_comics_pagination:
  "(sp_page p < 1 \<or> sp_page_size p < 1 \<or> 100 < sp_page_size p \<longrightarrow>
      list_comics p d = Inl RequestValidationError)
   \<and> (1 \<le> sp_page p \<and> 1 \<le> sp_page_size p \<and> sp_page_size p \<le> 100
      \<and> sort_column (sp_sort_by p) = Some col
      \<and> (sp_sort_order p = ''asc'' \<or> sp_sort_order p = ''desc'') \<longrightarrow>
      (let rows = where_rows (build_search_query p) (comics d);
           ordered = order_by (sp_sort_order p = ''asc'') col rows;
           skip = nat ((sp_page p - 1) * sp_page_size p)
       in \<exists>r. list_comics p d = Inr r
            \<and> pc_total r = length rows
            \<and> mset ordered = mset rows
            \<and> pc_results r = map ComicListOut (take (nat (sp_page_size p)) (drop skip ordered))
            \<and> length (pc_results r) \<le> nat (sp_page_size p)
            \<and> length (pc_results r) = min (nat (sp_page_size p)) (length rows - skip)
            \<and> (\<forall>i<length (pc_results r).
                  pc_results r ! i = ComicListOut (ordered ! (skip + i)))))
   \<and> (sp_page p = 2 \<and> sp_page_size p = 20
      \<and> sort_column (sp_sort_by p) = Some col
      \<and> (sp_sort_order p = ''asc'' \<or> sp_sort_order p = ''desc'')
      \<and> length (where_rows (build_search_query p) (comics d)) = 45 \<longrightarrow>
      (\<exists>r. list_comics p d = Inr r
          \<and> pc_total r = 45
          \<and> length (pc_results r) = 20
          \<and> pc_results r
              = map ComicListOut
                  (take 20 (drop 20 (order_by (sp_sort_order p = ''asc'') col
                                       (where_rows (build_search_query p) (comics d)))))))"
proof (intro conjI impI)
  assume "sp_page p < 1 \<or> sp_page_size p < 1 \<or> 100 < sp_page_size p"
  then show "list_comics p d = Inl RequestValidationError" by (rule list_comics_rejects)
next
  assume a: "1 \<le> sp_page p \<and> 1 \<le> sp_page_size p \<and> sp_page_size p \<le> 100
      \<and> sort_column (sp_sort_by p) = Some col
      \<and> (sp_sort_order p = ''asc'' \<or> sp_sort_order p = ''desc'')"
  from page_of_ordered [of p col _ d, OF _ _ _ _ _ refl refl refl] a
  show "let rows = where_rows (build_search_query p) (comics d);
           ordered = order_by (sp_sort_order p = ''asc'') col rows;
           skip = nat ((sp_page p - 1) * sp_page_size p)
       in \<exists>r. list_comics p d = Inr r
            \<and> pc_total r = length rows
            \<and> mset ordered = mset rows
            \<and> pc_results r = map ComicListOut (take (nat (sp_page_size p)) (drop skip ordered))
            \<and> length (pc_results r) \<le> nat (sp_page_size p)
            \<and> length (pc_results r) = min (nat (sp_page_size p)) (length rows - skip)
            \<and> (\<forall>i<length (pc_results r).
                  pc_results r ! i = ComicListOut (ordered ! (skip + i)))"
    unfolding Let_def by (metis min.cobounded1)
next
  assume a: "sp_page p = 2 \<and> sp_page_size p = 20
      \<and> sort_column (sp_sort_by p) = Some col
      \<and> (sp_sort_order p = ''asc'' \<or> sp_sort_order p = ''desc'')
      \<and> length (where_rows (build_search_query p) (comics d)) = 45"
  then have b: "1 \<le> sp_page p" "1 \<le> sp_page_size p" "sp_page_size p \<le> 100"
    "sort_column (sp_sort_by p) = Some col"
    "sp_sort_order p = ''asc'' \<or> sp_sort_order p = ''desc''"
    by simp_all
  from page_of_ordered [OF b refl refl refl, of d] a
  show "\<exists>r. list_comics p d = Inr r
          \<and> pc_total r = 45
          \<and> length (pc_results r) = 20
          \<and> pc_results r
              = map ComicListOut
                  (take 20 (drop 20 (order_by (sp_sort_order p = ''asc'') col
                                       (where_rows (build_search_query p) (comics d)))))"
    by auto
qed

text \<open>On the shelf of 45 comics, by year ascending: page 2 of size 20 lists the issues 21
  to 40 with total 45; page 0 and page size 101 are rejected.\<close>

theorem list_comics_pagination_witness:
  "length (where_rows (build_search_query (default_params\<lparr>sp_page := 2, sp_sort_by := ''year''\<rparr>))
             (comics shelf_db)) = 45
   \<and> (\<exists>r. list_comics (default_params\<lparr>sp_page := 2, sp_sort_by := ''year''\<rparr>) shelf_db = Inr r
          \<and> pc_total r = 45
          \<and> map lo_id (pc_results r)
              = [''21'', ''22'', ''23'', ''24'', ''25'', ''26'', ''27'', ''28'', ''29'', ''30'',
                 ''31'', ''32'', ''33'', ''34'', ''35'', ''36'', ''37'', ''38'', ''39'', ''40''])
   \<and> list_comics (default_params\<lparr>sp_page := 0\<rparr>) shelf_db = Inl RequestValidationError
   \<and> list_comics (default_params\<lparr>sp_page_size := 101\<rparr>) shelf_db = Inl RequestValidationError"
proof -
  let ?p = "default_params\<lparr>sp_page := 2, sp_sort_by := ''year''\<rparr>"
  have n: "length (where_rows (build_search_query ?p) (comics shelf_db)) = 45"
    by (simp add: default_params_def build_search_query_def when_str_def when_int_def
          where_rows_def shelf_db_def)
  have h: "sp_page ?p = 2 \<and> sp_page_size ?p = 20
      \<and> sort_column (sp_sort_by ?p) = Some (\<lambda>c. c_attrs c Year)
      \<and> (sp_sort_order ?p = ''asc'' \<or> sp_sort_order ?p = ''desc'')
      \<and> length (where_rows (build_search_query ?p) (comics shelf_db)) = 45"
    using n by (simp add: default_params_def sort_column_def)
  have ids: "map lo_id (map ComicListOut
                  (take 20 (drop 20 (order_by (sp_sort_order ?p = ''asc'') (\<lambda>c. c_attrs c Year)
                                       (where_rows (build_search_query ?p) (comics shelf_db))))))
              = [''21'', ''22'', ''23'', ''24'', ''25'', ''26'', ''27'', ''28'', ''29'', ''30'',
                 ''31'', ''32'', ''33'', ''34'', ''35'', ''36'', ''37'', ''38'', ''39'', ''40'']"
    by code_simp
  from list_comics_pagination [of ?p shelf_db "\<lambda>c. c_attrs c Year"] h
  obtain r where r: "list_comics ?p shelf_db = Inr r" "pc_total r = 45"
    "pc_results r = map ComicListOut
                  (take 20 (drop 20 (order_by (sp_sort_order ?p = ''asc'') (\<lambda>c. c_attrs c Year)
                                       (where_rows (build_search_query ?p) (comics shelf_db)))))"
    by blast
  from r ids have "\<exists>r. list_comics ?p shelf_db = Inr r \<and> pc_total r = 45
          \<and> map lo_id (pc_results r)
              = [''21'', ''22'', ''23'', ''24'', ''25'', ''26'', ''27'', ''28'', ''29'', ''30'',
                 ''31'', ''32'', ''33'', ''34'', ''35'', ''36'', ''37'', ''38'', ''39'', ''40'']"
    by simp
  moreover
  from list_comics_pagination [of "default_params\<lparr>sp_page := 0\<rparr>" shelf_db "\<lambda>c. c_attrs c Year"]
  have "list_comics (default_params\<lparr>sp_page := 0\<rparr>) shelf_db = Inl RequestValidationError"
    by (simp add: default_params_def)
  moreover
  from list_comics_pagination [of "default_params\<lparr>sp_page_size := 101\<rparr>" shelf_db "\<lambda>c. c_attrs c Year"]
  have "list_comics (default_params\<lparr>sp_page_size := 101\<rparr>) shelf_db = Inl RequestValidationError"
    by (simp add: default_params_def)
  ultimately show ?thesis using n by blast
qed

section \<open>Properties of the metadata record service\<close>

lemmas library_defs = library_db_def watchmen_def maus_def abc_def mk_comic_def
  alice_def bob_def root_user_def

lemma all_fields: "f \<in> set comic_update_fields"
  by (cases f) (simp_all add: comic_update_fields_def)

lemma distinct_fields: "distinct comic_update_fields"
  by (simp add: comic_update_fields_def)

lemma map_of_dump:
  "distinct xs \<Longrightarrow>
   map_of (List.map_filter (\<lambda>f. map_option (Pair f) (payload f)) xs) f
     = (if f \<in> set xs then payload f else None)"
proof (induction xs)
  case Nil
  then show ?case by (simp add: List.map_filter_simps)
next
  case (Cons x xs)
  then show ?case
    by (cases "payload x") (auto simp: List.map_filter_simps)
qed

lemma map_of_model_dump: "map_of (model_dump_exclude_none payload) f = payload f"
  by (simp add: model_dump_exclude_none_def map_of_dump distinct_fields all_fields)

lemma fst_dump:
  "map fst (List.map_filter (\<lambda>f. map_option (Pair f) (payload f)) xs)
     = filter (\<lambda>f. payload f \<noteq> None) xs"
  by (induction xs) (auto simp: List.map_filter_simps split: option.splits)

lemma distinct_model_dump: "distinct (map fst (model_dump_exclude_none payload))"
  by (simp add: model_dump_exclude_none_def fst_dump distinct_fields)

lemma fold_setattr_frame:
  "c_id (fold (\<lambda>(key, v) c. setattr c key v) kvs c) = c_id c
   \<and> c_cover_image_path (fold (\<lambda>(key, v) c. setattr c key v) kvs c) = c_cover_image_path c
   \<and> c_created_at (fold (\<lambda>(key, v) c. setattr c key v) kvs c) = c_created_at c
   \<and> c_updated_at (fold (\<lambda>(key, v) c. setattr c key v) kvs c) = c_updated_at c
   \<and> c_created_by (fold (\<lambda>(key, v) c. setattr c key v) kvs c) = c_created_by c"
  by (induction kvs arbitrary: c) (auto simp: setattr_def)

lemma fold_setattr_attrs:
  "distinct (map fst kvs) \<Longrightarrow>
   c_attrs (fold (\<lambda>(key, v) c. setattr c key v) kvs c) f
     = (case map_of kvs f of None \<Rightarrow> c_attrs c f | Some v \<Rightarrow> Some v)"
proof (induction kvs arbitrary: c)
  case Nil
  then show ?case by simp
next
  case (Cons kv kvs)
  obtain k v where kv: "kv = (k, v)" by (cases kv)
  from Cons.prems kv have d: "distinct (map fst kvs)" and k: "k \<notin> fst ` set kvs" by auto
  from k have "map_of kvs k = None" by (simp add: map_of_eq_None_iff)
  with Cons.IH [OF d, of "setattr c k v"] kv show ?case
    by (auto simp: setattr_def split: option.splits)
qed

lemma patched_attrs:
  "c_attrs (apply_patch (model_dump_exclude_none payload) c) f
     = (case payload f of None \<Rightarrow> c_attrs c f | Some v \<Rightarrow> Some v)"
  by (simp add: apply_patch_def fold_setattr_attrs distinct_model_dump map_of_model_dump)

lemma patched_frame:
  "c_id (apply_patch kvs c) = c_id c
   \<and> c_cover_image_path (apply_patch kvs c) = c_cover_image_path c
   \<and> c_created_at (apply_patch kvs c) = c_created_at c
   \<and> c_updated_at (apply_patch kvs c) = c_updated_at c
   \<and> c_created_by (apply_patch kvs c) = c_created_by c"
  unfolding apply_patch_def by (rule fold_setattr_frame)

lemma flush_update_frame:
  "c_id (flush_update now l c) = c_id c \<and> c_attrs (flush_update now l c) = c_attrs c
   \<and> c_cover_image_path (flush_update now l c) = c_cover_image_path c
   \<and> c_created_at (flush_update now l c) = c_created_at c
   \<and> c_created_by (flush_update now l c) = c_created_by c"
  by (simp add: flush_update_def)

lemma flush_update_time:
  "c_updated_at (flush_update now l c)
     = (if \<exists>f. c_attrs c f \<noteq> c_attrs l f then now else c_updated_at c)"
  using all_fields by (auto simp: flush_update_def list_ex_iff)

lemma one_row:
  assumes "distinct (map c_id (comics d))" "c \<in> set (comics d)" "c_id c = cid"
  shows "filter (\<lambda>x. c_id x = cid) (comics d) = [c]"
  using filter_distinct_key [OF assms(1,2), of "\<lambda>_. True"] assms(3) by simp

lemma update_comic_permitted:
  assumes "distinct (map c_id (comics d))" "c \<in> set (comics d)" "c_id c = cid"
    and "c_created_by c = Some (u_id u) \<or> u_is_admin u"
  shows "update_comic now cid payload u d =
           (Inr (flush_update now c (apply_patch (model_dump_exclude_none payload) c)),
            d\<lparr>comics := map (\<lambda>x. if c_id x = cid then flush_update now c (apply_patch (model_dump_exclude_none payload) c) else x)
                             (comics d)\<rparr>)"
  using assms(4) by (auto simp: update_comic_def one_row [OF assms(1-3)] Let_def)


lemma update_comic_missing:
  assumes "\<forall>c\<in>set (comics d). c_id c \<noteq> cid"
  shows "update_comic now cid payload u d = (Inl (HTTPException 404 ''Comic not found''), d)"
proof -
  from assms have "filter (\<lambda>x. c_id x = cid) (comics d) = []" by (auto simp: filter_empty_conv)
  then show ?thesis by (simp add: update_comic_def)
qed

lemma delete_comic_missing:
  assumes "\<forall>c\<in>set (comics d). c_id c \<noteq> cid"
  shows "delete_comic cid u d = (Inl (HTTPException 404 ''Comic not found''), d)"
proof -
  from assms have "filter (\<lambda>x. c_id x = cid) (comics d) = []" by (auto simp: filter_empty_conv)
  then show ?thesis by (simp add: delete_comic_def)
qed

lemma update_comic_forbidden:
  assumes "distinct (map c_id (comics d))" "c \<in> set (comics d)" "c_id c = cid"
    and "c_created_by c \<noteq> Some (u_id u)" "\<not> u_is_admin u"
  shows "update_comic now cid payload u d
           = (Inl (HTTPException 403 ''Not allowed to edit this comic''), d)"
  using assms(4,5) by (simp add: update_comic_def one_row [OF assms(1-3)])

lemma delete_comic_forbidden:
  assumes "distinct (map c_id (comics d))" "c \<in> set (comics d)" "c_id c = cid"
    and "c_created_by c \<noteq> Some (u_id u)" "\<not> u_is_admin u"
  shows "delete_comic cid u d
           = (Inl (HTTPException 403 ''Not allowed to delete this comic''), d)"
  using assms(4,5) by (simp add: delete_comic_def one_row [OF assms(1-3)])

lemma delete_comic_permitted:
  assumes "distinct (map c_id (comics d))" "c \<in> set (comics d)" "c_id c = cid"
    and "c_created_by c = Some (u_id u) \<or> u_is_admin u"
  shows "delete_comic cid u d = (Inr (), d\<lparr>comics := filter (\<lambda>x. c_id x \<noteq> cid) (comics d)\<rparr>)"
  using assms(4) by (auto simp: delete_comic_def one_row [OF assms(1-3)])

text \<open>
  Claim C4.  For update and delete of a comic by id: when no comic has the id, both fail
  with 404, whoever the caller is; when the comic exists (ids are unique in the store)
  and the caller is neither its recorded creator nor an admin, both fail with 403 and
  leave the store unchanged; when the caller is the creator or an admin, the update
  returns the row and the delete removes it.
\<close>

theorem existence_before_ownership:
  "((\<forall>c\<in>set (comics d). c_id c \<noteq> cid) \<longrightarrow>
       update_comic now cid payload u d = (Inl (HTTPException 404 ''Comic not found''), d)
     \<and> delete_comic cid u d = (Inl (HTTPException 404 ''Comic not found''), d))
   \<and> (distinct (map c_id (comics d)) \<and> c \<in> set (comics d) \<and> c_id c = cid
      \<and> c_created_by c \<noteq> Some (u_id u) \<and> \<not> u_is_admin u \<longrightarrow>
       update_comic now cid payload u d
         = (Inl (HTTPException 403 ''Not allowed to edit this comic''), d)
     \<and> delete_comic cid u d
         = (Inl (HTTPException 403 ''Not allowed to delete this comic''), d))
   \<and> (distinct (map c_id (comics d)) \<and> c \<in> set (comics d) \<and> c_id c = cid
      \<and> (c_created_by c = Some (u_id u) \<or> u_is_admin u) \<longrightarrow>
       (\<exists>c'. update_comic now cid payload u d
               = (Inr c', d\<lparr>comics := map (\<lambda>x. if c_id x = cid then c' else x) (comics d)\<rparr>)
             \<and> c_id c' = cid)
     \<and> delete_comic cid u d
         = (Inr (), d\<lparr>comics := filter (\<lambda>x. c_id x \<noteq> cid) (comics d)\<rparr>))"
proof (intro conjI impI)
  assume "\<forall>c\<in>set (comics d). c_id c \<noteq> cid"
  then show "update_comic now cid payload u d = (Inl (HTTPException 404 ''Comic not found''), d)"
    and "delete_comic cid u d = (Inl (HTTPException 404 ''Comic not found''), d)"
    by (rule update_comic_missing, rule delete_comic_missing)
next
  assume a: "distinct (map c_id (comics d)) \<and> c \<in> set (comics d) \<and> c_id c = cid
      \<and> c_created_by c \<noteq> Some (u_id u) \<and> \<not> u_is_admin u"
  then show "update_comic now cid payload u d
         = (Inl (HTTPException 403 ''Not allowed to edit this comic''), d)"
    by (intro update_comic_forbidden [of d c]) simp_all
  from a show "delete_comic cid u d
         = (Inl (HTTPException 403 ''Not allowed to delete this comic''), d)"
    by (intro delete_comic_forbidden [of d c]) simp_all
next
  assume a: "distinct (map c_id (comics d)) \<and> c \<in> set (comics d) \<and> c_id c = cid
      \<and> (c_created_by c = Some (u_id u) \<or> u_is_admin u)"
  then have h: "distinct (map c_id (comics d))" "c \<in> set (comics d)" "c_id c = cid"
    "c_created_by c = Some (u_id u) \<or> u_is_admin u" by simp_all
  let ?c' = "flush_update now c (apply_patch (model_dump_exclude_none payload) c)"
  have "c_id ?c' = cid"
    using h(3) by (simp add: flush_update_frame patched_frame)
  with update_comic_permitted [OF h, of now payload]
  show "\<exists>c'. update_comic now cid payload u d
               = (Inr c', d\<lparr>comics := map (\<lambda>x. if c_id x = cid then c' else x) (comics d)\<rparr>)
             \<and> c_id c' = cid"
    by blast
  from delete_comic_permitted [OF h]
  show "delete_comic cid u d
         = (Inr (), d\<lparr>comics := filter (\<lambda>x. c_id x \<noteq> cid) (comics d)\<rparr>)" .
qed

text \<open>On the example library: bob gets 404 for an unknown id and 403 for alice's
  comic; alice, the creator, and the admin both update and delete it.\<close>

theorem existence_before_ownership_witness:
  "update_comic 99 ''c9'' (\<lambda>f. None) bob library_db
      = (Inl (HTTPException 404 ''Comic not found''), library_db)
   \<and> delete_comic ''c9'' bob library_db = (Inl (HTTPException 404 ''Comic not found''), library_db)
   \<and> update_comic 99 ''c1'' (\<lambda>f. None) bob library_db
      = (Inl (HTTPException 403 ''Not allowed to edit this comic''), library_db)
   \<and> delete_comic ''c1'' bob library_db
      = (Inl (HTTPException 403 ''Not allowed to delete this comic''), library_db)
   \<and> fst (delete_comic ''c1'' alice library_db) = Inr ()
   \<and> fst (delete_comic ''c1'' root_user library_db) = Inr ()
   \<and> map c_id (comics (snd (delete_comic ''c1'' alice library_db))) = [''c2'', ''c3'']
   \<and> (\<exists>c'. fst (update_comic 99 ''c1'' (\<lambda>f. None) alice library_db) = Inr c')
   \<and> (\<exists>c'. fst (update_comic 99 ''c1'' (\<lambda>f. None) root_user library_db) = Inr c')"
proof -
  have miss: "\<forall>c\<in>set (comics library_db). c_id c \<noteq> ''c9''"
    by (simp add: library_defs)
  have row: "distinct (map c_id (comics library_db))" "watchmen \<in> set (comics library_db)"
    "c_id watchmen = ''c1''"
    by (simp_all add: library_defs)
  have bob: "c_created_by watchmen \<noteq> Some (u_id bob)" "\<not> u_is_admin bob"
    by (simp_all add: library_defs)
  have alice: "c_created_by watchmen = Some (u_id alice)"
    by (simp add: library_defs)
  have root: "u_is_admin root_user"
    by (simp add: library_defs)
  note t = existence_before_ownership
  from t [of library_db "''c9''" 99 "\<lambda>f. None" bob watchmen] miss
  have 1: "update_comic 99 ''c9'' (\<lambda>f. None) bob library_db
      = (Inl (HTTPException 404 ''Comic not found''), library_db)"
    "delete_comic ''c9'' bob library_db = (Inl (HTTPException 404 ''Comic not found''), library_db)"
    by blast+
  from t [of library_db "''c1''" 99 "\<lambda>f. None" bob watchmen] row bob
  have 2: "update_comic 99 ''c1'' (\<lambda>f. None) bob library_db
      = (Inl (HTTPException 403 ''Not allowed to edit this comic''), library_db)"
    "delete_comic ''c1'' bob library_db
      = (Inl (HTTPException 403 ''Not allowed to delete this comic''), library_db)"
    by blast+
  from t [of library_db "''c1''" 99 "\<lambda>f. None" alice watchmen] row alice
  have 3: "delete_comic ''c1'' alice library_db
         = (Inr (), library_db\<lparr>comics := filter (\<lambda>x. c_id x \<noteq> ''c1'') (comics library_db)\<rparr>)"
    "\<exists>c'. fst (update_comic 99 ''c1'' (\<lambda>f. None) alice library_db) = Inr c'"
    by (blast, force)
  from t [of library_db "''c1''" 99 "\<lambda>f. None" root_user watchmen] row root
  have 4: "delete_comic ''c1'' root_user library_db
         = (Inr (), library_db\<lparr>comics := filter (\<lambda>x. c_id x \<noteq> ''c1'') (comics library_db)\<rparr>)"
    "\<exists>c'. fst (update_comic 99 ''c1'' (\<lambda>f. None) root_user library_db) = Inr c'"
    by (blast, force)
  have 5: "map c_id (comics (snd (delete_comic ''c1'' alice library_db))) = [''c2'', ''c3'']"
    unfolding 3(1) by (simp add: library_defs)
  from 1 2 3 4 5 show ?thesis by simp
qed

text \<open>
  Claim C5, as amended.  For every permitted patch of an existing comic: each column given
  a non-null value in the body takes that value; every other column, title included,
  keeps its value, and a member given as \<^verbatim>\<open>null\<close> counts as left out; the id, the
  creator, the creation timestamp and the cover image path keep their values; every
  other row of the store is unchanged.  The \<^verbatim>\<open>updated_at\<close> timestamp is the exception: it
  is set to the time of the update when a given value differs from the stored one.
\<close>

theorem patch_changes_supplied_fields:
  assumes "distinct (map c_id (comics d))" "c \<in> set (comics d)" "c_id c = cid"
    and "c_created_by c = Some (u_id u) \<or> u_is_admin u"
  shows "\<exists>c'. update_comic now cid (ComicUpdate body) u d
               = (Inr c', d\<lparr>comics := map (\<lambda>x. if c_id x = cid then c' else x) (comics d)\<rparr>)
           \<and> (\<forall>f. c_attrs c' f = (case body f of Given v \<Rightarrow> Some v
                                   | Null \<Rightarrow> c_attrs c f | Omitted \<Rightarrow> c_attrs c f))
           \<and> c_id c' = c_id c \<and> c_created_by c' = c_created_by c
           \<and> c_created_at c' = c_created_at c
           \<and> c_cover_image_path c' = c_cover_image_path c
           \<and> c_updated_at c'
               = (if \<exists>f v. body f = Given v \<and> c_attrs c f \<noteq> Some v then now
                  else c_updated_at c)"
proof -
  let ?p = "apply_patch (model_dump_exclude_none (ComicUpdate body)) c"
  let ?c' = "flush_update now c ?p"
  have attrs: "c_attrs ?c' f = (case body f of Given v \<Rightarrow> Some v
                                   | Null \<Rightarrow> c_attrs c f | Omitted \<Rightarrow> c_attrs c f)" for f
    by (simp add: flush_update_frame patched_attrs ComicUpdate_def split: json_member.splits)
  have "c_attrs ?p f \<noteq> c_attrs c f \<longleftrightarrow> (\<exists>v. body f = Given v \<and> c_attrs c f \<noteq> Some v)" for f
    by (cases "body f") (auto simp: patched_attrs ComicUpdate_def)
  then have "(\<exists>f. c_attrs ?p f \<noteq> c_attrs c f)
               \<longleftrightarrow> (\<exists>f v. body f = Given v \<and> c_attrs c f \<noteq> Some v)"
    by blast
  note changed = this
  have time: "c_updated_at ?c'
               = (if \<exists>f v. body f = Given v \<and> c_attrs c f \<noteq> Some v then now
                  else c_updated_at c)"
    by (simp only: flush_update_time changed patched_frame)
  have frame: "c_id ?c' = c_id c" "c_created_by ?c' = c_created_by c"
    "c_created_at ?c' = c_created_at c" "c_cover_image_path ?c' = c_cover_image_path c"
    by (simp_all add: flush_update_frame patched_frame)
  from update_comic_permitted [OF assms, of now "ComicUpdate body"] attrs time frame
  show ?thesis by blast
qed

text \<open>On the example library: alice gives a summary and \<^verbatim>\<open>null\<close> notes for Watchmen;
  the summary is stored, title and year are kept, the notes stay NULL.\<close>

theorem patch_changes_supplied_fields_witness:
  "distinct (map c_id (comics library_db)) \<and> watchmen \<in> set (comics library_db)
   \<and> c_created_by watchmen = Some (u_id alice)
   \<and> (\<exists>c'. fst (update_comic 99 ''c1'' (ComicUpdate summary_only) alice library_db) = Inr c'
          \<and> c_attrs c' Summary = Some (S ''Who watches?'')
          \<and> c_attrs c' Title = Some (S ''Watchmen'')
          \<and> c_attrs c' Year = Some (I 1986)
          \<and> c_attrs c' Notes = None
          \<and> c_updated_at c' = 99)"
proof -
  have row: "distinct (map c_id (comics library_db))" "watchmen \<in> set (comics library_db)"
    "c_id watchmen = ''c1''"
    by (simp_all add: library_defs)
  have alice: "c_created_by watchmen = Some (u_id alice)"
    by (simp add: library_defs)
  then have perm: "c_created_by watchmen = Some (u_id alice) \<or> u_is_admin alice" by simp
  have ch: "\<exists>f v. summary_only f = Given v \<and> c_attrs watchmen f \<noteq> Some v"
    by (rule exI [of _ Summary]) (simp add: summary_only_def library_defs)
  from patch_changes_supplied_fields [OF row perm, of 99 summary_only]
  obtain c' where c': "fst (update_comic 99 ''c1'' (ComicUpdate summary_only) alice library_db) = Inr c'"
    "\<And>f. c_attrs c' f = (case summary_only f of Given v \<Rightarrow> Some v
                                   | Null \<Rightarrow> c_attrs watchmen f | Omitted \<Rightarrow> c_attrs watchmen f)"
    "c_updated_at c'
               = (if \<exists>f v. summary_only f = Given v \<and> c_attrs watchmen f \<noteq> Some v then 99
                  else c_updated_at watchmen)"
    by force
  from c'(3) ch have "c_updated_at c' = 99" by simp
  moreover have "c_attrs c' Summary = Some (S ''Who watches?'')"
    "c_attrs c' Title = Some (S ''Watchmen'')" "c_attrs c' Year = Some (I 1986)"
    "c_attrs c' Notes = None"
    by (simp_all add: c'(2) summary_only_def library_defs)
  ultimately show ?thesis using row alice c'(1) by blast
qed

text \<open>The claim as stated fails on \<^verbatim>\<open>updated_at\<close>: the body gives only a summary (and
  \<^verbatim>\<open>null\<close> notes), and the timestamp of the row goes from 10 to the time of the update,
  99.\<close>

theorem patch_timestamp_counterexample:
  "map_sum (\<lambda>e. e) c_updated_at
     (fst (update_comic 99 ''c1'' (ComicUpdate summary_only) alice library_db)) = Inr 99
   \<and> c_updated_at watchmen = 10
   \<and> summary_only Summary = Given (S ''Who watches?'')
   \<and> summary_only Notes = Null"
  by (simp add: update_comic_def library_defs summary_only_def ComicUpdate_def
        model_dump_exclude_none_def comic_update_fields_def List.map_filter_simps
        apply_patch_def setattr_def flush_update_def Let_def)

end
